theory Spec2Isabelle
  imports Complex_Main
begin

section \<open>Numbers, references and the object store\<close>

text \<open>
  The simulator is JavaScript, and its numbers are IEEE 754 doubles. The code is read twice.
  The sections up to \<open>The spec's invariants and formulas\<close> read its arithmetic over \<open>real\<close>:
  they carry the statements about which value a setter stores where, about aliasing, about
  the formula of the center of mass and about the body axes, and their concrete scenarios
  use whole numbers far below \<open>2^53\<close>, on which the arithmetic of doubles is exact. The
  sections from \<open>JavaScript numbers as IEEE 754 doubles\<close> on give the doubles themselves,
  with NaN, the two infinities, the negative zero and rounding to nearest, and read the
  ballast code again over them: they carry the statements on which rounding, NaN or an
  infinity decides. A division whose divisor may be zero is guarded by a hypothesis
  wherever a theorem over \<open>real\<close> depends on its value.

  Vectors, quaternions and matrices are objects of the three.js library, held by
  reference and mutated in place (\<open>set\<close>, \<open>copy\<close>, \<open>applyQuaternion\<close>, \<open>cross\<close>).
  They live in an explicit store; a field of the submarine state that holds such an object
  holds its reference.
\<close>

type_synonym ref = nat

record Vector3 =
  x :: real
  y :: real
  z :: real

record Quaternion =
  qx :: real
  qy :: real
  qz :: real
  qw :: real

text \<open>A 3x3 matrix, as three.js stores it: nine elements in column-major order.\<close>

type_synonym Matrix3 = "real list"

record Store =
  vectors :: "ref \<Rightarrow> Vector3"
  quaternions :: "ref \<Rightarrow> Quaternion"
  matrices :: "ref \<Rightarrow> Matrix3"
  nextRef :: ref

definition emptyStore :: Store where
  "emptyStore =
     \<lparr>vectors = (\<lambda>_. \<lparr>x = 0, y = 0, z = 0\<rparr>),
      quaternions = (\<lambda>_. \<lparr>qx = 0, qy = 0, qz = 0, qw = 1\<rparr>),
      matrices = (\<lambda>_. []),
      nextRef = 0\<rparr>"

subsection \<open>The three.js operations the code calls\<close>

text \<open>
  Modelled from the spec: the three.js library (\<open>THREE.Vector3\<close>, \<open>THREE.Quaternion\<close>,
  \<open>THREE.Matrix3\<close>) is imported by the sources and is not part of them. Its constructors
  allocate a new object; \<open>clone\<close> allocates a copy; \<open>copy\<close> and \<open>set\<close> overwrite the
  receiver in place and return it. \<open>applyQuaternion\<close> replaces the receiver by its
  rotation by the quaternion (the spec: "rotate world unit vector (0,0,1) by
  orientation"), computed as three.js does: \<open>v + w t + q \<times> t\<close> with \<open>t = 2 (q \<times> v)\<close>,
  where \<open>q\<close> is the quaternion's vector part and \<open>w\<close> its scalar part; for a unit
  quaternion this is the rotation \<open>q v q\<^sup>-\<^sup>1\<close>. \<open>cross\<close> replaces the receiver by the
  cross product receiver \<open>\<times>\<close> argument. \<open>dot\<close> is the scalar product, in which
  orthonormality is stated.
\<close>

definition new_Vector3 :: "real \<Rightarrow> real \<Rightarrow> real \<Rightarrow> Store \<Rightarrow> ref \<times> Store" where
  "new_Vector3 a b c h =
     (nextRef h,
      h\<lparr>vectors := (vectors h)(nextRef h := \<lparr>x = a, y = b, z = c\<rparr>),
        nextRef := Suc (nextRef h)\<rparr>)"

definition new_Quaternion :: "Store \<Rightarrow> ref \<times> Store" where
  "new_Quaternion h =
     (nextRef h,
      h\<lparr>quaternions := (quaternions h)(nextRef h := \<lparr>qx = 0, qy = 0, qz = 0, qw = 1\<rparr>),
        nextRef := Suc (nextRef h)\<rparr>)"

definition new_Matrix3 :: "Store \<Rightarrow> ref \<times> Store" where
  "new_Matrix3 h =
     (nextRef h,
      h\<lparr>matrices := (matrices h)(nextRef h := [1, 0, 0, 0, 1, 0, 0, 0, 1]),
        nextRef := Suc (nextRef h)\<rparr>)"

definition Vector3_clone :: "ref \<Rightarrow> Store \<Rightarrow> ref \<times> Store" where
  "Vector3_clone r h =
     (nextRef h,
      h\<lparr>vectors := (vectors h)(nextRef h := vectors h r),
        nextRef := Suc (nextRef h)\<rparr>)"

definition Quaternion_clone :: "ref \<Rightarrow> Store \<Rightarrow> ref \<times> Store" where
  "Quaternion_clone r h =
     (nextRef h,
      h\<lparr>quaternions := (quaternions h)(nextRef h := quaternions h r),
        nextRef := Suc (nextRef h)\<rparr>)"

definition Vector3_copy :: "ref \<Rightarrow> ref \<Rightarrow> Store \<Rightarrow> Store" where
  "Vector3_copy r src h = h\<lparr>vectors := (vectors h)(r := vectors h src)\<rparr>"

definition Quaternion_copy :: "ref \<Rightarrow> ref \<Rightarrow> Store \<Rightarrow> Store" where
  "Quaternion_copy r src h = h\<lparr>quaternions := (quaternions h)(r := quaternions h src)\<rparr>"

definition Vector3_set :: "ref \<Rightarrow> real \<Rightarrow> real \<Rightarrow> real \<Rightarrow> Store \<Rightarrow> ref \<times> Store" where
  "Vector3_set r a b c h = (r, h\<lparr>vectors := (vectors h)(r := \<lparr>x = a, y = b, z = c\<rparr>)\<rparr>)"

definition rotateByQuaternion :: "Quaternion \<Rightarrow> Vector3 \<Rightarrow> Vector3" where
  "rotateByQuaternion q v =
     (let tx = 2 * (qy q * z v - qz q * y v);
          ty = 2 * (qz q * x v - qx q * z v);
          tz = 2 * (qx q * y v - qy q * x v)
      in \<lparr>x = x v + qw q * tx + qy q * tz - qz q * ty,
          y = y v + qw q * ty + qz q * tx - qx q * tz,
          z = z v + qw q * tz + qx q * ty - qy q * tx\<rparr>)"

definition applyQuaternion :: "ref \<Rightarrow> ref \<Rightarrow> Store \<Rightarrow> ref \<times> Store" where
  "applyQuaternion r q h =
     (r, h\<lparr>vectors := (vectors h)(r := rotateByQuaternion (quaternions h q) (vectors h r))\<rparr>)"

definition crossVectors :: "Vector3 \<Rightarrow> Vector3 \<Rightarrow> Vector3" where
  "crossVectors a b =
     \<lparr>x = y a * z b - z a * y b,
      y = z a * x b - x a * z b,
      z = x a * y b - y a * x b\<rparr>"

definition cross :: "ref \<Rightarrow> ref \<Rightarrow> Store \<Rightarrow> ref \<times> Store" where
  "cross r v h =
     (r, h\<lparr>vectors := (vectors h)(r := crossVectors (vectors h r) (vectors h v))\<rparr>)"

definition dot :: "Vector3 \<Rightarrow> Vector3 \<Rightarrow> real" where
  "dot a b = x a * x b + y a * y b + z a * z b"

section \<open>SubmarineConstants\<close>

text \<open>
  Modelled from the spec: the class \<open>SubmarineConstants\<close> is not among the sources; only
  its constructor call (in \<open>initOhio\<close> and \<open>initTyphoon\<close>) and its getters'
  names are. The spec calls it a "pure data holder constructed once" that "exposes read
  accessors only", so it is a record of the eighteen constructor arguments, in the
  constructor's order, and every getter (\<open>getBallastTankCapacity\<close>, \<open>getLength\<close>,
  \<open>getEmptyMass\<close>) reads its field.
\<close>

record SubmarineConstants =
  emptyMass :: real
  maxMass :: real
  length_m :: real
  width :: real
  volume :: real
  rotorDiameter :: real
  maxRotorRoundPerSecond :: real
  sternPlaneArea :: real
  rudderPlaneArea :: real
  fairwaterPlaneArea :: real
  dragCoefficient :: real
  thrustCoefficient :: real
  sternCoefficient :: real
  rudderCoefficient :: real
  fairwaterCoefficient :: real
  centerOfBuoyancy :: ref
  surfaceArea :: real
  ballastTankCapacity :: real

definition getBallastTankCapacity :: "SubmarineConstants \<Rightarrow> real" where
  "getBallastTankCapacity c = ballastTankCapacity c"

definition getLength :: "SubmarineConstants \<Rightarrow> real" where
  "getLength c = length_m c"

definition getEmptyMass :: "SubmarineConstants \<Rightarrow> real" where
  "getEmptyMass c = emptyMass c"

section \<open>SubmarineState\<close>

text \<open>
  The class \<open>SubmarineState\<close>: the constructor's twenty-two fields. A method of the class
  takes the object (\<open>this\<close>) and the store and returns them updated; a getter returns its
  value beside the store, since \<open>clone\<close> allocates.
\<close>

record SubmarineState =
  currentTotalWaterMass :: real
  currentWaterMassFrontTank :: real
  currentWaterMassBackTank :: real
  currentRotorRPS :: real
  submergedVolume :: real
  currentDepth :: real
  currentSpeed :: ref
  currentAcceleration :: ref
  currentPosition :: ref
  currentOrientation :: ref
  angularVelocity :: ref
  angularAcceleration :: ref
  weight :: real
  buoyancy :: real
  drag :: real
  thrust :: real
  sternAngle :: real
  rudderAngle :: real
  fairwaterAngle :: real
  momentOfInertia :: ref
  centerOfMass :: ref
  submarineConstants :: SubmarineConstants

definition getCurrentTotalWaterMass :: "SubmarineState \<Rightarrow> real" where
  "getCurrentTotalWaterMass this = currentTotalWaterMass this"

definition getCurrentWaterMassFrontTank :: "SubmarineState \<Rightarrow> real" where
  "getCurrentWaterMassFrontTank this = currentWaterMassFrontTank this"

definition getCurrentWaterMassBackTank :: "SubmarineState \<Rightarrow> real" where
  "getCurrentWaterMassBackTank this = currentWaterMassBackTank this"

definition getCenterOfMass :: "SubmarineState \<Rightarrow> Store \<Rightarrow> ref \<times> Store" where
  "getCenterOfMass this h = (centerOfMass this, h)"

definition setCenterOfMass :: "SubmarineState \<Rightarrow> ref \<Rightarrow> SubmarineState" where
  "setCenterOfMass this r = this\<lparr>centerOfMass := r\<rparr>"

text \<open>
  \<open>autoSetCenterOfMass\<close>: both branches of the source's \<open>if\<close> run the same statement,
  \<open>this.setCenterOfMass(this.centerOfMass.set(0, 0, position))\<close>; \<open>set\<close> overwrites the
  vector the field refers to and returns that same reference.
\<close>

definition autoSetCenterOfMass :: "SubmarineState \<Rightarrow> Store \<Rightarrow> SubmarineState \<times> Store" where
  "autoSetCenterOfMass this h =
     (let waterInFront = currentWaterMassFrontTank this;
          waterInBack = currentWaterMassBackTank this;
          max_cap = getBallastTankCapacity (submarineConstants this) / 2;
          diff = waterInFront - waterInBack;
          ratio = diff / max_cap;
          position = ratio * (getLength (submarineConstants this) / 4)
      in if waterInFront \<ge> waterInBack
         then (let (r, h') = Vector3_set (centerOfMass this) 0 0 position h
               in (setCenterOfMass this r, h'))
         else (let (r, h') = Vector3_set (centerOfMass this) 0 0 position h
               in (setCenterOfMass this r, h')))"

definition setCurrentTotalWaterMass ::
  "SubmarineState \<Rightarrow> Store \<Rightarrow> real \<Rightarrow> SubmarineState \<times> Store" where
  "setCurrentTotalWaterMass this h newTotal =
     (let maxTankCapacity = getBallastTankCapacity (submarineConstants this) / 2;
          oldTotalWater = currentWaterMassFrontTank this + currentWaterMassBackTank this;
          totalAddedWater = newTotal - oldTotalWater;
          newFrontTankWater = currentWaterMassFrontTank this + totalAddedWater / 2;
          newBackTankWater = currentWaterMassBackTank this + totalAddedWater / 2;
          (newFrontTankWater, newBackTankWater) =
            (if newFrontTankWater > maxTankCapacity then
               (let overflow = newFrontTankWater - maxTankCapacity
                in (maxTankCapacity, newBackTankWater + overflow))
             else if newFrontTankWater < 0 then
               (let underflow = newFrontTankWater
                in (0, newBackTankWater + underflow))
             else (newFrontTankWater, newBackTankWater));
          (newFrontTankWater, newBackTankWater) =
            (if newBackTankWater > maxTankCapacity then
               (let overflow = newBackTankWater - maxTankCapacity
                in (newFrontTankWater + overflow, maxTankCapacity))
             else if newBackTankWater < 0 then
               (let underflow = newBackTankWater
                in (newFrontTankWater + underflow, 0))
             else (newFrontTankWater, newBackTankWater));
          this = this\<lparr>currentWaterMassFrontTank := min (max newFrontTankWater 0) maxTankCapacity\<rparr>;
          this = this\<lparr>currentWaterMassBackTank := min (max newBackTankWater 0) maxTankCapacity\<rparr>;
          this = this\<lparr>currentTotalWaterMass := newTotal\<rparr>
      in autoSetCenterOfMass this h)"

definition setCurrentWaterMassFrontTank ::
  "SubmarineState \<Rightarrow> Store \<Rightarrow> real \<Rightarrow> SubmarineState \<times> Store" where
  "setCurrentWaterMassFrontTank this h v =
     (let this = this\<lparr>currentTotalWaterMass := v + getCurrentWaterMassBackTank this\<rparr>;
          this = this\<lparr>currentWaterMassFrontTank := v\<rparr>
      in autoSetCenterOfMass this h)"

definition setCurrentWaterMassBackTank ::
  "SubmarineState \<Rightarrow> Store \<Rightarrow> real \<Rightarrow> SubmarineState \<times> Store" where
  "setCurrentWaterMassBackTank this h v =
     (let this = this\<lparr>currentTotalWaterMass := v + getCurrentWaterMassFrontTank this\<rparr>;
          this = this\<lparr>currentWaterMassBackTank := v\<rparr>
      in autoSetCenterOfMass this h)"

text \<open>
  The getters of the vector and quaternion fields. Six of them return
  \<open>this.<field>.clone()\<close>; \<open>getMomentOfInertia\<close> and \<open>getCenterOfMass\<close> (above) return
  \<open>this.<field>\<close>, the reference itself. The setters of the six cloned fields \<open>copy\<close> the
  argument into the object the field refers to; \<open>setMomentOfInertia\<close> and
  \<open>setCenterOfMass\<close> store the argument reference.
\<close>

definition getCurrentSpeed :: "SubmarineState \<Rightarrow> Store \<Rightarrow> ref \<times> Store" where
  "getCurrentSpeed this h = Vector3_clone (currentSpeed this) h"

definition setCurrentSpeed :: "SubmarineState \<Rightarrow> Store \<Rightarrow> ref \<Rightarrow> Store" where
  "setCurrentSpeed this h v = Vector3_copy (currentSpeed this) v h"

definition getCurrentAcceleration :: "SubmarineState \<Rightarrow> Store \<Rightarrow> ref \<times> Store" where
  "getCurrentAcceleration this h = Vector3_clone (currentAcceleration this) h"

definition setCurrentAcceleration :: "SubmarineState \<Rightarrow> Store \<Rightarrow> ref \<Rightarrow> Store" where
  "setCurrentAcceleration this h v = Vector3_copy (currentAcceleration this) v h"

definition getCurrentPosition :: "SubmarineState \<Rightarrow> Store \<Rightarrow> ref \<times> Store" where
  "getCurrentPosition this h = Vector3_clone (currentPosition this) h"

definition setCurrentPosition :: "SubmarineState \<Rightarrow> Store \<Rightarrow> ref \<Rightarrow> Store" where
  "setCurrentPosition this h v = Vector3_copy (currentPosition this) v h"

definition getCurrentOrientation :: "SubmarineState \<Rightarrow> Store \<Rightarrow> ref \<times> Store" where
  "getCurrentOrientation this h = Quaternion_clone (currentOrientation this) h"

definition setCurrentOrientation :: "SubmarineState \<Rightarrow> Store \<Rightarrow> ref \<Rightarrow> Store" where
  "setCurrentOrientation this h q = Quaternion_copy (currentOrientation this) q h"

definition getAngularVelocity :: "SubmarineState \<Rightarrow> Store \<Rightarrow> ref \<times> Store" where
  "getAngularVelocity this h = Vector3_clone (angularVelocity this) h"

definition setAngularVelocity :: "SubmarineState \<Rightarrow> Store \<Rightarrow> ref \<Rightarrow> Store" where
  "setAngularVelocity this h v = Vector3_copy (angularVelocity this) v h"

definition getAngularAcceleration :: "SubmarineState \<Rightarrow> Store \<Rightarrow> ref \<times> Store" where
  "getAngularAcceleration this h = Vector3_clone (angularAcceleration this) h"

definition setAngularAcceleration :: "SubmarineState \<Rightarrow> Store \<Rightarrow> ref \<Rightarrow> Store" where
  "setAngularAcceleration this h v = Vector3_copy (angularAcceleration this) v h"

definition getMomentOfInertia :: "SubmarineState \<Rightarrow> Store \<Rightarrow> ref \<times> Store" where
  "getMomentOfInertia this h = (momentOfInertia this, h)"

definition setMomentOfInertia :: "SubmarineState \<Rightarrow> ref \<Rightarrow> SubmarineState" where
  "setMomentOfInertia this r = this\<lparr>momentOfInertia := r\<rparr>"

subsection \<open>Body axes\<close>

definition getForwardAxis :: "SubmarineState \<Rightarrow> Store \<Rightarrow> ref \<times> Store" where
  "getForwardAxis this h =
     (let (forwardDirection, h) = new_Vector3 0 0 1 h;
          (q, h) = getCurrentOrientation this h;
          (_, h) = applyQuaternion forwardDirection q h
      in (forwardDirection, h))"

definition getUpAxis :: "SubmarineState \<Rightarrow> Store \<Rightarrow> ref \<times> Store" where
  "getUpAxis this h =
     (let (upDirection, h) = new_Vector3 0 1 0 h;
          (q, h) = getCurrentOrientation this h;
          (_, h) = applyQuaternion upDirection q h
      in (upDirection, h))"

definition getRightAxis :: "SubmarineState \<Rightarrow> Store \<Rightarrow> ref \<times> Store" where
  "getRightAxis this h =
     (let (upAxis, h) = getUpAxis this h;
          (forwardAxis, h) = getForwardAxis this h;
          (rightAxis, h) = cross upAxis forwardAxis h
      in (rightAxis, h))"

subsection \<open>Derived scalars\<close>

definition getCurrentMass :: "SubmarineState \<Rightarrow> real" where
  "getCurrentMass this = currentTotalWaterMass this + getEmptyMass (submarineConstants this)"

definition getTanksDifferenceMass :: "SubmarineState \<Rightarrow> real" where
  "getTanksDifferenceMass this =
     max (currentWaterMassFrontTank this) (currentWaterMassBackTank this)
     - min (currentWaterMassFrontTank this) (currentWaterMassBackTank this)"

section \<open>Submarine and the collection of submarines\<close>

record Submarine =
  constants :: SubmarineConstants
  state :: SubmarineState
  type :: string

text \<open>
  Modelled from the spec: the enums \<open>SubmarineType\<close> and \<open>Events\<close> and the class
  \<open>EventEmitter\<close> are imported by the sources and are not among them. The spec names the
  vehicle-class identifiers "Ohio" and "Typhoon", and says that a switch "emits a
  vehicle switched notification to registered observers" with "no payload beyond the
  event tag itself": \<open>trigger\<close> is modelled by the trace of the tags triggered so far.
\<close>

definition SubmarineType_Ohio :: string where
  "SubmarineType_Ohio = ''Ohio''"

definition SubmarineType_Typhoon :: string where
  "SubmarineType_Typhoon = ''Typhoon''"

datatype Events = SwitchSubmarine

text \<open>
  The class \<open>Subamrines\<close> (the source's spelling). Its field \<open>items\<close> is created by \<open>{}\<close>: an
  ordinary JavaScript object, whose prototype is \<open>Object.prototype\<close>. The record field
  \<open>items\<close> holds the object's own properties. The read \<open>this.items[key]\<close> returns the own
  property under \<open>key\<close> when there is one; otherwise the language looks the key up in
  \<open>Object.prototype\<close> and returns the member found there; only a key that is in neither
  gives \<open>undefined\<close>. The names that the ECMAScript standard defines on \<open>Object.prototype\<close>
  are listed in \<open>Object_prototype_keys\<close> (\<open>__proto__\<close> and the four \<open>__define\<close>/\<open>__lookup\<close>
  accessor helpers are the standard's Annex B, present in every browser and in Node.js);
  a member inherited under one of them is a built-in function, or \<open>Object.prototype\<close>
  itself for \<open>__proto__\<close>, and is represented by its name. A program that adds names to
  \<open>Object.prototype\<close> at run time is outside the model. The key is the argument after
  JavaScript's conversion to a property name, a string.
\<close>

datatype js_value = Undefined | SubmarineObject Submarine | InheritedMember string

definition Object_prototype_keys :: "string list" where
  "Object_prototype_keys =
     [''constructor'', ''hasOwnProperty'', ''isPrototypeOf'', ''propertyIsEnumerable'',
      ''toLocaleString'', ''toString'', ''valueOf'', ''__proto__'',
      ''__defineGetter__'', ''__defineSetter__'', ''__lookupGetter__'', ''__lookupSetter__'']"

definition property_get :: "(string \<rightharpoonup> Submarine) \<Rightarrow> string \<Rightarrow> js_value" where
  "property_get obj key =
     (case obj key of
        Some submarine \<Rightarrow> SubmarineObject submarine
      | None \<Rightarrow> if key \<in> set Object_prototype_keys then InheritedMember key else Undefined)"

text \<open>
  The field \<open>current\<close> holds whatever the last read of \<open>items\<close> returned. \<open>trigger\<close> comes
  from \<open>EventEmitter\<close>; it is modelled by the trace of the event tags triggered so far, and
  the listeners it would call are not run.
\<close>

record Subamrines =
  items :: "string \<rightharpoonup> Submarine"
  current :: js_value
  triggered :: "Events list"

definition trigger :: "Subamrines \<Rightarrow> Events \<Rightarrow> Subamrines" where
  "trigger this e = this\<lparr>triggered := triggered this @ [e]\<rparr>"

definition switchSubmarine :: "Subamrines \<Rightarrow> string \<Rightarrow> Subamrines" where
  "switchSubmarine this submarine =
     (let this = this\<lparr>current := property_get (items this) submarine\<rparr>
      in trigger this SwitchSubmarine)"

definition getCurrentSubmarine :: "Subamrines \<Rightarrow> js_value" where
  "getCurrentSubmarine this = current this"

definition getSubmarine :: "Subamrines \<Rightarrow> string \<Rightarrow> js_value" where
  "getSubmarine this t = property_get (items this) t"

definition initOhio :: "Store \<Rightarrow> Submarine \<times> Store" where
  "initOhio h =
     (let emptyMass = 16764000;
          maxMass = 36528000;
          length = 170;
          width = 13;
          (centerOfBuoyancy, h) = new_Vector3 0 0 0 h;
          radius = width / 2;
          surfaceArea = 2 * pi * radius * (radius + length);
          ballastTankCapacity = maxMass - emptyMass;
          currentTotalWaterMass = 0;
          halfCurrentTotalWaterMass = currentTotalWaterMass / 2;
          (currentSpeed, h) = new_Vector3 0 0 0 h;
          (currentAcceleration, h) = new_Vector3 0 0 0 h;
          (currentPosition, h) = new_Vector3 0 0 0 h;
          (currentOrientation, h) = new_Quaternion h;
          (angularVelocity, h) = new_Vector3 0 0 0 h;
          (angularAcceleration, h) = new_Vector3 0 0 0 h;
          (momentOfInertia, h) = new_Matrix3 h;
          (centerOfMass, h) = new_Vector3 0 0 0 h;
          ohioSubmarineConstants =
            \<lparr>emptyMass = emptyMass, maxMass = maxMass, length_m = length, width = width,
             volume = 32710.243902, rotorDiameter = 4, maxRotorRoundPerSecond = 10,
             sternPlaneArea = 5, rudderPlaneArea = 7, fairwaterPlaneArea = 3,
             dragCoefficient = 1.9, thrustCoefficient = 0.8044923775964,
             sternCoefficient = 0.8, rudderCoefficient = 0.7, fairwaterCoefficient = 0.6,
             centerOfBuoyancy = centerOfBuoyancy, surfaceArea = surfaceArea,
             ballastTankCapacity = ballastTankCapacity\<rparr>;
          ohioSubmarineState =
            \<lparr>currentTotalWaterMass = currentTotalWaterMass,
             currentWaterMassFrontTank = halfCurrentTotalWaterMass,
             currentWaterMassBackTank = halfCurrentTotalWaterMass,
             currentRotorRPS = 0, submergedVolume = 0, currentDepth = 0,
             currentSpeed = currentSpeed, currentAcceleration = currentAcceleration,
             currentPosition = currentPosition, currentOrientation = currentOrientation,
             angularVelocity = angularVelocity, angularAcceleration = angularAcceleration,
             weight = 0, buoyancy = 0, drag = 0, thrust = 0,
             sternAngle = 0, rudderAngle = 0, fairwaterAngle = 0,
             momentOfInertia = momentOfInertia, centerOfMass = centerOfMass,
             submarineConstants = ohioSubmarineConstants\<rparr>
      in (\<lparr>constants = ohioSubmarineConstants, state = ohioSubmarineState,
           type = SubmarineType_Ohio\<rparr>, h))"

definition initTyphoon :: "Store \<Rightarrow> Submarine \<times> Store" where
  "initTyphoon h =
     (let emptyMass = 23200000;
          maxMass = 48000000;
          length = 175;
          width = 23;
          (centerOfBuoyancy, h) = new_Vector3 0 0 0 h;
          radius = width / 2;
          surfaceArea = 2 * pi * radius * (radius + length);
          ballastTankCapacity = maxMass - emptyMass;
          currentTotalWaterMass = 0;
          halfCurrentTotalWaterMass = currentTotalWaterMass / 2;
          (currentSpeed, h) = new_Vector3 0 0 0 h;
          (currentAcceleration, h) = new_Vector3 0 0 0 h;
          (currentPosition, h) = new_Vector3 0 0 0 h;
          (currentOrientation, h) = new_Quaternion h;
          (angularVelocity, h) = new_Vector3 0 0 0 h;
          (angularAcceleration, h) = new_Vector3 0 0 0 h;
          (momentOfInertia, h) = new_Matrix3 h;
          (centerOfMass, h) = new_Vector3 0 0 0 h;
          typhoonSubmarineConstants =
            \<lparr>emptyMass = emptyMass, maxMass = maxMass, length_m = length, width = width,
             volume = 31102.439025, rotorDiameter = 7, maxRotorRoundPerSecond = 10,
             sternPlaneArea = 8, rudderPlaneArea = 14, fairwaterPlaneArea = 5,
             dragCoefficient = 1.9, thrustCoefficient = 0.317622429678,
             sternCoefficient = 0.8, rudderCoefficient = 0.98, fairwaterCoefficient = 0.5,
             centerOfBuoyancy = centerOfBuoyancy, surfaceArea = surfaceArea,
             ballastTankCapacity = ballastTankCapacity\<rparr>;
          typhoonSubmarineState =
            \<lparr>currentTotalWaterMass = currentTotalWaterMass,
             currentWaterMassFrontTank = halfCurrentTotalWaterMass,
             currentWaterMassBackTank = halfCurrentTotalWaterMass,
             currentRotorRPS = 0, submergedVolume = 0, currentDepth = 0,
             currentSpeed = currentSpeed, currentAcceleration = currentAcceleration,
             currentPosition = currentPosition, currentOrientation = currentOrientation,
             angularVelocity = angularVelocity, angularAcceleration = angularAcceleration,
             weight = 0, buoyancy = 0, drag = 0, thrust = 0,
             sternAngle = 0, rudderAngle = 0, fairwaterAngle = 0,
             momentOfInertia = momentOfInertia, centerOfMass = centerOfMass,
             submarineConstants = typhoonSubmarineConstants\<rparr>
      in (\<lparr>constants = typhoonSubmarineConstants, state = typhoonSubmarineState,
           type = SubmarineType_Typhoon\<rparr>, h))"

text \<open>
  \<open>initItems\<close> writes the two submarines under the keys \<open>SubmarineType.Ohio\<close> and
  \<open>SubmarineType.Typhoon\<close>, which creates two own properties of \<open>items\<close> (neither key is a
  name of \<open>Object.prototype\<close>), and reads the second one back into \<open>current\<close>. The
  constructor starts from the empty object, with no \<open>current\<close> yet.
\<close>

definition initItems :: "Subamrines \<Rightarrow> Store \<Rightarrow> Subamrines \<times> Store" where
  "initItems this h =
     (let (ohioSubmarine, h) = initOhio h;
          this = this\<lparr>items := (items this)(SubmarineType_Ohio \<mapsto> ohioSubmarine)\<rparr>;
          (typhoonSUbmarine, h) = initTyphoon h;
          this = this\<lparr>items := (items this)(SubmarineType_Typhoon \<mapsto> typhoonSUbmarine)\<rparr>;
          this = this\<lparr>current := property_get (items this) SubmarineType_Typhoon\<rparr>
      in (this, h))"

definition new_Subamrines :: "Store \<Rightarrow> Subamrines \<times> Store" where
  "new_Subamrines h =
     initItems \<lparr>items = Map.empty, current = Undefined, triggered = []\<rparr> h"

text \<open>
  The collections that the class itself can produce: the one the constructor builds, and
  any collection obtained from such a one by \<open>switchSubmarine\<close>. (\<open>getSubmarine\<close> and
  \<open>getCurrentSubmarine\<close> change nothing.)
\<close>

inductive reachable :: "Subamrines \<Rightarrow> bool" where
  constructed: "reachable (fst (new_Subamrines h))"
| switched: "reachable this \<Longrightarrow> reachable (switchSubmarine this submarine)"

section \<open>The spec's invariants and formulas\<close>

text \<open>
  The tank-bounds invariant of the spec's data model, as a predicate on a state:
  both tank masses lie between zero and half the ballast tank capacity.
\<close>

definition tank_bounds :: "SubmarineState \<Rightarrow> bool" where
  "tank_bounds this =
     (0 \<le> currentWaterMassFrontTank this
      \<and> currentWaterMassFrontTank this \<le> getBallastTankCapacity (submarineConstants this) / 2
      \<and> 0 \<le> currentWaterMassBackTank this
      \<and> currentWaterMassBackTank this \<le> getBallastTankCapacity (submarineConstants this) / 2)"

text \<open>
  The spec's formula for the center of mass (its section 4.3), written from the spec's
  words and compared below with what \<open>autoSetCenterOfMass\<close> stores:
  \<open>(0, 0, ratio * length/4)\<close> with
  \<open>ratio = (frontMass - backMass) / (ballastTankCapacity/2)\<close>.
\<close>

definition spec_centerOfMass :: "SubmarineState \<Rightarrow> Vector3" where
  "spec_centerOfMass this =
     \<lparr>x = 0, y = 0,
      z = ((currentWaterMassFrontTank this - currentWaterMassBackTank this)
             / (getBallastTankCapacity (submarineConstants this) / 2))
          * (getLength (submarineConstants this) / 4)\<rparr>"

text \<open>A unit quaternion, the spec's condition on an orientation.\<close>

definition unit_quaternion :: "Quaternion \<Rightarrow> bool" where
  "unit_quaternion q = ((qx q)\<^sup>2 + (qy q)\<^sup>2 + (qz q)\<^sup>2 + (qw q)\<^sup>2 = 1)"

text \<open>
  The Ohio submarine's state and the store that holds its vectors, as \<open>initOhio\<close> builds
  them in an empty store.
\<close>

abbreviation ohio_state :: SubmarineState where
  "ohio_state \<equiv> state (fst (initOhio emptyStore))"

abbreviation ohio_store :: Store where
  "ohio_store \<equiv> snd (initOhio emptyStore)"

section \<open>JavaScript numbers as IEEE 754 doubles\<close>

text \<open>
  A JavaScript number is a binary64 value: NaN, one of the two infinities, the negative
  zero, or a finite real (\<open>Fin 0\<close> is the positive zero). The finite doubles are the reals
  \<open>k * 2^q\<close> with \<open>|k| < 2^53\<close> and \<open>-1074 <= q <= 971\<close>; \<open>Fin\<close> can hold any real, and
  \<open>is_f64\<close> says that a value is a double. The operations below return doubles on doubles.
\<close>

datatype f64 = NaN | PInf | NInf | NegZero | Fin real

subsection \<open>Rounding to nearest, ties to even\<close>

text \<open>
  \<open>max_double\<close> is the largest finite double. \<open>ulp_exp v\<close> is the exponent of the spacing of
  the doubles around \<open>v\<close>: 52 binary places below the leading bit of \<open>v\<close>, and never below
  the spacing of the subnormal numbers. \<open>rne\<close> rounds a real to the nearest integer, a tie
  to the even one. \<open>round_grid\<close> rounds a real to the nearest multiple of its spacing, and
  \<open>round64\<close> is the rounding of IEEE 754: a result beyond \<open>max_double\<close> is an infinity, and
  a negative real that rounds to zero gives the negative zero.
\<close>

definition max_double :: real where
  "max_double = (2 ^ 53 - 1) * 2 ^ 971"

definition ulp_exp :: "real \<Rightarrow> int" where
  "ulp_exp v = max (\<lfloor>log 2 \<bar>v\<bar>\<rfloor> - 52) (- 1074)"

definition rne :: "real \<Rightarrow> int" where
  "rne v = (let n = \<lfloor>v\<rfloor>; r = v - of_int n
            in if r < 1 / 2 then n else if 1 / 2 < r then n + 1
               else if even n then n else n + 1)"

definition round_grid :: "real \<Rightarrow> real" where
  "round_grid v = of_int (rne (v / 2 powi ulp_exp v)) * 2 powi ulp_exp v"

definition round64 :: "real \<Rightarrow> f64" where
  "round64 v = (let r = round_grid v
                in if max_double < r then PInf
                   else if r < - max_double then NInf
                   else if r = 0 \<and> v < 0 then NegZero
                   else Fin r)"

subsection \<open>Classification\<close>

fun is_inf :: "f64 \<Rightarrow> bool" where
  "is_inf PInf = True"
| "is_inf NInf = True"
| "is_inf _ = False"

fun is_zero :: "f64 \<Rightarrow> bool" where
  "is_zero NegZero = True"
| "is_zero (Fin v) = (v = 0)"
| "is_zero _ = False"

fun is_neg :: "f64 \<Rightarrow> bool" where
  "is_neg NInf = True"
| "is_neg NegZero = True"
| "is_neg (Fin v) = (v < 0)"
| "is_neg _ = False"

fun fv :: "f64 \<Rightarrow> real" where
  "fv (Fin v) = v"
| "fv _ = 0"

fun rank :: "f64 \<Rightarrow> int" where
  "rank NInf = - 1"
| "rank PInf = 1"
| "rank _ = 0"

definition is_finite :: "f64 \<Rightarrow> bool" where
  "is_finite a = (a \<noteq> NaN \<and> \<not> is_inf a)"

definition is_double :: "real \<Rightarrow> bool" where
  "is_double v = (\<bar>v\<bar> \<le> max_double \<and> round_grid v = v)"

fun is_f64 :: "f64 \<Rightarrow> bool" where
  "is_f64 (Fin v) = is_double v"
| "is_f64 _ = True"

text \<open>
  \<open>bounded\<close> holds of the infinities, NaN and the zeros, and of a finite value within the
  range of the doubles. \<open>halfint\<close> holds of the multiples of one half, the grid on which
  the sums and halves of whole-number masses stay.
\<close>

definition bounded :: "f64 \<Rightarrow> bool" where
  "bounded a = (\<bar>fv a\<bar> \<le> max_double)"

definition halfint :: "real \<Rightarrow> bool" where
  "halfint v = (\<exists>k::int. v = of_int k / 2)"

subsection \<open>Arithmetic, comparison, Math.max and Math.min\<close>

text \<open>
  \<open>+\<close>, unary \<open>-\<close>, \<open>-\<close>, \<open>*\<close> and \<open>/\<close> of JavaScript: the special cases of IEEE 754 first (NaN
  operands, infinities of opposite sign, zero by infinity, zero by zero, the sign of a
  zero result), then the exact result, rounded. \<open><\<close>, \<open><=\<close>, \<open>>\<close>, \<open>>=\<close> and \<open>==\<close> are false as
  soon as an operand is NaN, and do not tell the two zeros apart. \<open>Math.max\<close> and
  \<open>Math.min\<close> return NaN as soon as an argument is NaN, and order the negative zero below
  the positive one. \<open>lit\<close> is a numeric literal of the source: the double nearest to the
  decimal number written.
\<close>

definition signed_inf :: "bool \<Rightarrow> f64" where
  "signed_inf neg = (if neg then NInf else PInf)"

definition signed_zero :: "bool \<Rightarrow> f64" where
  "signed_zero neg = (if neg then NegZero else Fin 0)"

definition fadd :: "f64 \<Rightarrow> f64 \<Rightarrow> f64" where
  "fadd a b =
     (if a = NaN \<or> b = NaN then NaN
      else if is_inf a \<and> is_inf b then (if a = b then a else NaN)
      else if is_inf a then a
      else if is_inf b then b
      else if is_zero a \<and> is_zero b
        then (if a = NegZero \<and> b = NegZero then NegZero else Fin 0)
      else round64 (fv a + fv b))"

fun fneg :: "f64 \<Rightarrow> f64" where
  "fneg NaN = NaN"
| "fneg PInf = NInf"
| "fneg NInf = PInf"
| "fneg NegZero = Fin 0"
| "fneg (Fin v) = (if v = 0 then NegZero else Fin (- v))"

definition fsub :: "f64 \<Rightarrow> f64 \<Rightarrow> f64" where
  "fsub a b = fadd a (fneg b)"

definition fmul :: "f64 \<Rightarrow> f64 \<Rightarrow> f64" where
  "fmul a b =
     (if a = NaN \<or> b = NaN then NaN
      else if (is_inf a \<and> is_zero b) \<or> (is_zero a \<and> is_inf b) then NaN
      else if is_inf a \<or> is_inf b then signed_inf (is_neg a \<noteq> is_neg b)
      else if is_zero a \<or> is_zero b then signed_zero (is_neg a \<noteq> is_neg b)
      else round64 (fv a * fv b))"

definition fdiv :: "f64 \<Rightarrow> f64 \<Rightarrow> f64" where
  "fdiv a b =
     (if a = NaN \<or> b = NaN then NaN
      else if (is_inf a \<and> is_inf b) \<or> (is_zero a \<and> is_zero b) then NaN
      else if is_inf a \<or> is_zero b then signed_inf (is_neg a \<noteq> is_neg b)
      else if is_zero a \<or> is_inf b then signed_zero (is_neg a \<noteq> is_neg b)
      else round64 (fv a / fv b))"

definition flt :: "f64 \<Rightarrow> f64 \<Rightarrow> bool" where
  "flt a b = (a \<noteq> NaN \<and> b \<noteq> NaN
               \<and> (rank a < rank b \<or> (rank a = 0 \<and> rank b = 0 \<and> fv a < fv b)))"

definition fle :: "f64 \<Rightarrow> f64 \<Rightarrow> bool" where
  "fle a b = (a \<noteq> NaN \<and> b \<noteq> NaN
               \<and> (rank a < rank b \<or> (rank a = rank b \<and> (rank a \<noteq> 0 \<or> fv a \<le> fv b))))"

definition fgt :: "f64 \<Rightarrow> f64 \<Rightarrow> bool" where
  "fgt a b = flt b a"

definition fge :: "f64 \<Rightarrow> f64 \<Rightarrow> bool" where
  "fge a b = fle b a"

definition feq :: "f64 \<Rightarrow> f64 \<Rightarrow> bool" where
  "feq a b = (a \<noteq> NaN \<and> b \<noteq> NaN \<and> rank a = rank b \<and> fv a = fv b)"

definition Math_max :: "f64 \<Rightarrow> f64 \<Rightarrow> f64" where
  "Math_max a b =
     (if a = NaN \<or> b = NaN then NaN
      else if flt a b then b
      else if flt b a then a
      else if a = NegZero then b else a)"

definition Math_min :: "f64 \<Rightarrow> f64 \<Rightarrow> f64" where
  "Math_min a b =
     (if a = NaN \<or> b = NaN then NaN
      else if flt a b then a
      else if flt b a then b
      else if b = NegZero then b else a)"

definition lit :: "real \<Rightarrow> f64" where
  "lit v = round64 v"

section \<open>The ballast code over doubles\<close>

text \<open>
  The parts of three.js, \<open>SubmarineConstants\<close> and \<open>SubmarineState\<close> that the ballast
  setters touch, once more, with every number a double and every operator the operator of
  JavaScript. The names are those of the sections above with the suffix \<open>_f64\<close>. Modelled
  from the spec: as above, the three.js constructors and \<open>set\<close>, and the getters of
  \<open>SubmarineConstants\<close>, are not among the sources.
\<close>

record Vector3_f64 =
  x_f64 :: f64
  y_f64 :: f64
  z_f64 :: f64

record Quaternion_f64 =
  qx_f64 :: f64
  qy_f64 :: f64
  qz_f64 :: f64
  qw_f64 :: f64

type_synonym Matrix3_f64 = "f64 list"

record Store_f64 =
  vectors_f64 :: "ref \<Rightarrow> Vector3_f64"
  quaternions_f64 :: "ref \<Rightarrow> Quaternion_f64"
  matrices_f64 :: "ref \<Rightarrow> Matrix3_f64"
  nextRef_f64 :: ref

definition emptyStore_f64 :: Store_f64 where
  "emptyStore_f64 =
     \<lparr>vectors_f64 = (\<lambda>_. \<lparr>x_f64 = lit 0, y_f64 = lit 0, z_f64 = lit 0\<rparr>),
      quaternions_f64 = (\<lambda>_. \<lparr>qx_f64 = lit 0, qy_f64 = lit 0, qz_f64 = lit 0, qw_f64 = lit 1\<rparr>),
      matrices_f64 = (\<lambda>_. []),
      nextRef_f64 = 0\<rparr>"

definition new_Vector3_f64 :: "f64 \<Rightarrow> f64 \<Rightarrow> f64 \<Rightarrow> Store_f64 \<Rightarrow> ref \<times> Store_f64" where
  "new_Vector3_f64 a b c h =
     (nextRef_f64 h,
      h\<lparr>vectors_f64 := (vectors_f64 h)(nextRef_f64 h := \<lparr>x_f64 = a, y_f64 = b, z_f64 = c\<rparr>),
        nextRef_f64 := Suc (nextRef_f64 h)\<rparr>)"

definition new_Quaternion_f64 :: "Store_f64 \<Rightarrow> ref \<times> Store_f64" where
  "new_Quaternion_f64 h =
     (nextRef_f64 h,
      h\<lparr>quaternions_f64 := (quaternions_f64 h)
           (nextRef_f64 h := \<lparr>qx_f64 = lit 0, qy_f64 = lit 0, qz_f64 = lit 0, qw_f64 = lit 1\<rparr>),
        nextRef_f64 := Suc (nextRef_f64 h)\<rparr>)"

definition new_Matrix3_f64 :: "Store_f64 \<Rightarrow> ref \<times> Store_f64" where
  "new_Matrix3_f64 h =
     (nextRef_f64 h,
      h\<lparr>matrices_f64 := (matrices_f64 h)
           (nextRef_f64 h := [lit 1, lit 0, lit 0, lit 0, lit 1, lit 0, lit 0, lit 0, lit 1]),
        nextRef_f64 := Suc (nextRef_f64 h)\<rparr>)"

definition Vector3_set_f64 ::
  "ref \<Rightarrow> f64 \<Rightarrow> f64 \<Rightarrow> f64 \<Rightarrow> Store_f64 \<Rightarrow> ref \<times> Store_f64" where
  "Vector3_set_f64 r a b c h =
     (r, h\<lparr>vectors_f64 := (vectors_f64 h)(r := \<lparr>x_f64 = a, y_f64 = b, z_f64 = c\<rparr>)\<rparr>)"

record SubmarineConstants_f64 =
  emptyMass_f64 :: f64
  maxMass_f64 :: f64
  length_f64 :: f64
  width_f64 :: f64
  volume_f64 :: f64
  rotorDiameter_f64 :: f64
  maxRotorRoundPerSecond_f64 :: f64
  sternPlaneArea_f64 :: f64
  rudderPlaneArea_f64 :: f64
  fairwaterPlaneArea_f64 :: f64
  dragCoefficient_f64 :: f64
  thrustCoefficient_f64 :: f64
  sternCoefficient_f64 :: f64
  rudderCoefficient_f64 :: f64
  fairwaterCoefficient_f64 :: f64
  centerOfBuoyancy_f64 :: ref
  surfaceArea_f64 :: f64
  ballastTankCapacity_f64 :: f64

definition getBallastTankCapacity_f64 :: "SubmarineConstants_f64 \<Rightarrow> f64" where
  "getBallastTankCapacity_f64 c = ballastTankCapacity_f64 c"

definition getLength_f64 :: "SubmarineConstants_f64 \<Rightarrow> f64" where
  "getLength_f64 c = length_f64 c"

record SubmarineState_f64 =
  currentTotalWaterMass_f64 :: f64
  currentWaterMassFrontTank_f64 :: f64
  currentWaterMassBackTank_f64 :: f64
  currentRotorRPS_f64 :: f64
  submergedVolume_f64 :: f64
  currentDepth_f64 :: f64
  currentSpeed_f64 :: ref
  currentAcceleration_f64 :: ref
  currentPosition_f64 :: ref
  currentOrientation_f64 :: ref
  angularVelocity_f64 :: ref
  angularAcceleration_f64 :: ref
  weight_f64 :: f64
  buoyancy_f64 :: f64
  drag_f64 :: f64
  thrust_f64 :: f64
  sternAngle_f64 :: f64
  rudderAngle_f64 :: f64
  fairwaterAngle_f64 :: f64
  momentOfInertia_f64 :: ref
  centerOfMass_f64 :: ref
  submarineConstants_f64 :: SubmarineConstants_f64

definition getCurrentWaterMassFrontTank_f64 :: "SubmarineState_f64 \<Rightarrow> f64" where
  "getCurrentWaterMassFrontTank_f64 this = currentWaterMassFrontTank_f64 this"

definition getCurrentWaterMassBackTank_f64 :: "SubmarineState_f64 \<Rightarrow> f64" where
  "getCurrentWaterMassBackTank_f64 this = currentWaterMassBackTank_f64 this"

definition setCenterOfMass_f64 :: "SubmarineState_f64 \<Rightarrow> ref \<Rightarrow> SubmarineState_f64" where
  "setCenterOfMass_f64 this r = this\<lparr>centerOfMass_f64 := r\<rparr>"

definition autoSetCenterOfMass_f64 ::
  "SubmarineState_f64 \<Rightarrow> Store_f64 \<Rightarrow> SubmarineState_f64 \<times> Store_f64" where
  "autoSetCenterOfMass_f64 this h =
     (let waterInFront = currentWaterMassFrontTank_f64 this;
          waterInBack = currentWaterMassBackTank_f64 this;
          max_cap = fdiv (getBallastTankCapacity_f64 (submarineConstants_f64 this)) (lit 2);
          diff = fsub waterInFront waterInBack;
          ratio = fdiv diff max_cap;
          position = fmul ratio (fdiv (getLength_f64 (submarineConstants_f64 this)) (lit 4))
      in if fge waterInFront waterInBack
         then (let (r, h') = Vector3_set_f64 (centerOfMass_f64 this) (lit 0) (lit 0) position h
               in (setCenterOfMass_f64 this r, h'))
         else (let (r, h') = Vector3_set_f64 (centerOfMass_f64 this) (lit 0) (lit 0) position h
               in (setCenterOfMass_f64 this r, h')))"

definition setCurrentTotalWaterMass_f64 ::
  "SubmarineState_f64 \<Rightarrow> Store_f64 \<Rightarrow> f64 \<Rightarrow> SubmarineState_f64 \<times> Store_f64" where
  "setCurrentTotalWaterMass_f64 this h newTotal =
     (let maxTankCapacity = fdiv (getBallastTankCapacity_f64 (submarineConstants_f64 this)) (lit 2);
          oldTotalWater = fadd (currentWaterMassFrontTank_f64 this) (currentWaterMassBackTank_f64 this);
          totalAddedWater = fsub newTotal oldTotalWater;
          newFrontTankWater = fadd (currentWaterMassFrontTank_f64 this) (fdiv totalAddedWater (lit 2));
          newBackTankWater = fadd (currentWaterMassBackTank_f64 this) (fdiv totalAddedWater (lit 2));
          (newFrontTankWater, newBackTankWater) =
            (if fgt newFrontTankWater maxTankCapacity then
               (let overflow = fsub newFrontTankWater maxTankCapacity
                in (maxTankCapacity, fadd newBackTankWater overflow))
             else if flt newFrontTankWater (lit 0) then
               (let underflow = newFrontTankWater
                in (lit 0, fadd newBackTankWater underflow))
             else (newFrontTankWater, newBackTankWater));
          (newFrontTankWater, newBackTankWater) =
            (if fgt newBackTankWater maxTankCapacity then
               (let overflow = fsub newBackTankWater maxTankCapacity
                in (fadd newFrontTankWater overflow, maxTankCapacity))
             else if flt newBackTankWater (lit 0) then
               (let underflow = newBackTankWater
                in (fadd newFrontTankWater underflow, lit 0))
             else (newFrontTankWater, newBackTankWater));
          this = this\<lparr>currentWaterMassFrontTank_f64 :=
                   Math_min (Math_max newFrontTankWater (lit 0)) maxTankCapacity\<rparr>;
          this = this\<lparr>currentWaterMassBackTank_f64 :=
                   Math_min (Math_max newBackTankWater (lit 0)) maxTankCapacity\<rparr>;
          this = this\<lparr>currentTotalWaterMass_f64 := newTotal\<rparr>
      in autoSetCenterOfMass_f64 this h)"

definition setCurrentWaterMassFrontTank_f64 ::
  "SubmarineState_f64 \<Rightarrow> Store_f64 \<Rightarrow> f64 \<Rightarrow> SubmarineState_f64 \<times> Store_f64" where
  "setCurrentWaterMassFrontTank_f64 this h v =
     (let this = this\<lparr>currentTotalWaterMass_f64 := fadd v (getCurrentWaterMassBackTank_f64 this)\<rparr>;
          this = this\<lparr>currentWaterMassFrontTank_f64 := v\<rparr>
      in autoSetCenterOfMass_f64 this h)"

definition setCurrentWaterMassBackTank_f64 ::
  "SubmarineState_f64 \<Rightarrow> Store_f64 \<Rightarrow> f64 \<Rightarrow> SubmarineState_f64 \<times> Store_f64" where
  "setCurrentWaterMassBackTank_f64 this h v =
     (let this = this\<lparr>currentTotalWaterMass_f64 := fadd v (getCurrentWaterMassFrontTank_f64 this)\<rparr>;
          this = this\<lparr>currentWaterMassBackTank_f64 := v\<rparr>
      in autoSetCenterOfMass_f64 this h)"

text \<open>
  The values of the local variables \<open>newFrontTankWater\<close> and \<open>newBackTankWater\<close> of
  \<open>setCurrentTotalWaterMass\<close> after its two spill passes, as a function of the per-tank
  maximum, the two tank masses and the requested total: the same statements as in
  \<open>setCurrentTotalWaterMass_f64\<close>, which lemma \<open>setCurrentTotalWaterMass_f64_redistribute\<close>
  states.
\<close>

definition redistribute_f64 :: "f64 \<Rightarrow> f64 \<Rightarrow> f64 \<Rightarrow> f64 \<Rightarrow> f64 \<times> f64" where
  "redistribute_f64 maxTankCapacity front back newTotal =
     (let oldTotalWater = fadd front back;
          totalAddedWater = fsub newTotal oldTotalWater;
          newFrontTankWater = fadd front (fdiv totalAddedWater (lit 2));
          newBackTankWater = fadd back (fdiv totalAddedWater (lit 2));
          (newFrontTankWater, newBackTankWater) =
            (if fgt newFrontTankWater maxTankCapacity then
               (let overflow = fsub newFrontTankWater maxTankCapacity
                in (maxTankCapacity, fadd newBackTankWater overflow))
             else if flt newFrontTankWater (lit 0) then
               (let underflow = newFrontTankWater
                in (lit 0, fadd newBackTankWater underflow))
             else (newFrontTankWater, newBackTankWater))
      in (if fgt newBackTankWater maxTankCapacity then
               (let overflow = fsub newBackTankWater maxTankCapacity
                in (fadd newFrontTankWater overflow, maxTankCapacity))
             else if flt newBackTankWater (lit 0) then
               (let underflow = newBackTankWater
                in (fadd newFrontTankWater underflow, lit 0))
             else (newFrontTankWater, newBackTankWater)))"

text \<open>
  The tank-bounds invariant over doubles, with the comparisons of JavaScript: it fails as
  soon as a tank mass or the capacity is NaN.
\<close>

definition tank_bounds_f64 :: "SubmarineState_f64 \<Rightarrow> bool" where
  "tank_bounds_f64 this =
     (let maxPerTank = fdiv (getBallastTankCapacity_f64 (submarineConstants_f64 this)) (lit 2)
      in fle (lit 0) (currentWaterMassFrontTank_f64 this)
         \<and> fle (currentWaterMassFrontTank_f64 this) maxPerTank
         \<and> fle (lit 0) (currentWaterMassBackTank_f64 this)
         \<and> fle (currentWaterMassBackTank_f64 this) maxPerTank)"

text \<open>
  The class \<open>Submarine\<close> and the Ohio preset of \<open>initOhio\<close> over doubles. \<open>Math.PI\<close> is the
  double nearest to \<open>pi\<close>.
\<close>

record Submarine_f64 =
  constants_f64 :: SubmarineConstants_f64
  state_f64 :: SubmarineState_f64
  type_f64 :: string

definition initOhio_f64 :: "Store_f64 \<Rightarrow> Submarine_f64 \<times> Store_f64" where
  "initOhio_f64 h =
     (let emptyMass = lit 16764000;
          maxMass = lit 36528000;
          length = lit 170;
          width = lit 13;
          (centerOfBuoyancy, h) = new_Vector3_f64 (lit 0) (lit 0) (lit 0) h;
          radius = fdiv width (lit 2);
          surfaceArea = fmul (fmul (fmul (lit 2) (lit pi)) radius) (fadd radius length);
          ballastTankCapacity = fsub maxMass emptyMass;
          currentTotalWaterMass = lit 0;
          halfCurrentTotalWaterMass = fdiv currentTotalWaterMass (lit 2);
          (currentSpeed, h) = new_Vector3_f64 (lit 0) (lit 0) (lit 0) h;
          (currentAcceleration, h) = new_Vector3_f64 (lit 0) (lit 0) (lit 0) h;
          (currentPosition, h) = new_Vector3_f64 (lit 0) (lit 0) (lit 0) h;
          (currentOrientation, h) = new_Quaternion_f64 h;
          (angularVelocity, h) = new_Vector3_f64 (lit 0) (lit 0) (lit 0) h;
          (angularAcceleration, h) = new_Vector3_f64 (lit 0) (lit 0) (lit 0) h;
          (momentOfInertia, h) = new_Matrix3_f64 h;
          (centerOfMass, h) = new_Vector3_f64 (lit 0) (lit 0) (lit 0) h;
          ohioSubmarineConstants =
            \<lparr>emptyMass_f64 = emptyMass, maxMass_f64 = maxMass, length_f64 = length,
             width_f64 = width, volume_f64 = lit 32710.243902, rotorDiameter_f64 = lit 4,
             maxRotorRoundPerSecond_f64 = lit 10, sternPlaneArea_f64 = lit 5,
             rudderPlaneArea_f64 = lit 7, fairwaterPlaneArea_f64 = lit 3,
             dragCoefficient_f64 = lit 1.9, thrustCoefficient_f64 = lit 0.8044923775964,
             sternCoefficient_f64 = lit 0.8, rudderCoefficient_f64 = lit 0.7,
             fairwaterCoefficient_f64 = lit 0.6, centerOfBuoyancy_f64 = centerOfBuoyancy,
             surfaceArea_f64 = surfaceArea, ballastTankCapacity_f64 = ballastTankCapacity\<rparr>;
          ohioSubmarineState =
            \<lparr>currentTotalWaterMass_f64 = currentTotalWaterMass,
             currentWaterMassFrontTank_f64 = halfCurrentTotalWaterMass,
             currentWaterMassBackTank_f64 = halfCurrentTotalWaterMass,
             currentRotorRPS_f64 = lit 0, submergedVolume_f64 = lit 0, currentDepth_f64 = lit 0,
             currentSpeed_f64 = currentSpeed, currentAcceleration_f64 = currentAcceleration,
             currentPosition_f64 = currentPosition, currentOrientation_f64 = currentOrientation,
             angularVelocity_f64 = angularVelocity, angularAcceleration_f64 = angularAcceleration,
             weight_f64 = lit 0, buoyancy_f64 = lit 0, drag_f64 = lit 0, thrust_f64 = lit 0,
             sternAngle_f64 = lit 0, rudderAngle_f64 = lit 0, fairwaterAngle_f64 = lit 0,
             momentOfInertia_f64 = momentOfInertia, centerOfMass_f64 = centerOfMass,
             submarineConstants_f64 = ohioSubmarineConstants\<rparr>
      in (\<lparr>constants_f64 = ohioSubmarineConstants, state_f64 = ohioSubmarineState,
           type_f64 = SubmarineType_Ohio\<rparr>, h))"

abbreviation ohio_state_f64 :: SubmarineState_f64 where
  "ohio_state_f64 \<equiv> state_f64 (fst (initOhio_f64 emptyStore_f64))"

abbreviation ohio_store_f64 :: Store_f64 where
  "ohio_store_f64 \<equiv> snd (initOhio_f64 emptyStore_f64)"

text \<open>
  Three states that the setters build from the Ohio preset: the tanks at 0.1 and 0.2; the
  tanks at 50,000,000 and -5, both outside the bounds; and the tanks at +Infinity and
  -Infinity. The single-tank setters store any argument.
\<close>

abbreviation tenths_front :: "SubmarineState_f64 \<times> Store_f64" where
  "tenths_front \<equiv> setCurrentWaterMassFrontTank_f64 ohio_state_f64 ohio_store_f64 (lit (1 / 10))"

abbreviation tenths :: "SubmarineState_f64 \<times> Store_f64" where
  "tenths \<equiv> setCurrentWaterMassBackTank_f64 (fst tenths_front) (snd tenths_front) (lit (1 / 5))"

abbreviation overfull_front :: "SubmarineState_f64 \<times> Store_f64" where
  "overfull_front \<equiv> setCurrentWaterMassFrontTank_f64 ohio_state_f64 ohio_store_f64 (Fin 50000000)"

abbreviation overfull :: "SubmarineState_f64 \<times> Store_f64" where
  "overfull \<equiv> setCurrentWaterMassBackTank_f64 (fst overfull_front) (snd overfull_front) (Fin (- 5))"

abbreviation infinite_front :: "SubmarineState_f64 \<times> Store_f64" where
  "infinite_front \<equiv> setCurrentWaterMassFrontTank_f64 ohio_state_f64 ohio_store_f64 PInf"

abbreviation infinite_tanks :: "SubmarineState_f64 \<times> Store_f64" where
  "infinite_tanks \<equiv> setCurrentWaterMassBackTank_f64 (fst infinite_front) (snd infinite_front) NInf"

section \<open>Theorems\<close>

subsection \<open>What autoSetCenterOfMass leaves alone\<close>

lemma autoSetCenterOfMass_fields:
  "currentWaterMassFrontTank (fst (autoSetCenterOfMass this h)) = currentWaterMassFrontTank this"
  "currentWaterMassBackTank (fst (autoSetCenterOfMass this h)) = currentWaterMassBackTank this"
  "currentTotalWaterMass (fst (autoSetCenterOfMass this h)) = currentTotalWaterMass this"
  "submarineConstants (fst (autoSetCenterOfMass this h)) = submarineConstants this"
  "centerOfMass (fst (autoSetCenterOfMass this h)) = centerOfMass this"
  by (simp_all add: autoSetCenterOfMass_def Vector3_set_def setCenterOfMass_def Let_def)

subsection \<open>The Ohio preset, evaluated\<close>

lemma initOhio_state:
  "currentTotalWaterMass ohio_state = 0"
  "currentWaterMassFrontTank ohio_state = 0"
  "currentWaterMassBackTank ohio_state = 0"
  "currentSpeed ohio_state = 1"
  "currentOrientation ohio_state = 4"
  "momentOfInertia ohio_state = 7"
  "centerOfMass ohio_state = 8"
  "getBallastTankCapacity (submarineConstants ohio_state) = 19764000"
  "getLength (submarineConstants ohio_state) = 170"
  by (simp_all add: initOhio_def new_Vector3_def new_Quaternion_def new_Matrix3_def
      emptyStore_def getBallastTankCapacity_def getLength_def Let_def)

lemma initOhio_store:
  "nextRef ohio_store = 9"
  "vectors ohio_store 8 = \<lparr>x = 0, y = 0, z = 0\<rparr>"
  "quaternions ohio_store 4 = \<lparr>qx = 0, qy = 0, qz = 0, qw = 1\<rparr>"
  by (simp_all add: initOhio_def new_Vector3_def new_Quaternion_def new_Matrix3_def
      emptyStore_def Let_def)

subsection \<open>The ballast setters\<close>

lemma setCurrentTotalWaterMass_shape:
  "\<exists>F B. setCurrentTotalWaterMass this h newTotal =
     autoSetCenterOfMass
       (this\<lparr>currentWaterMassFrontTank :=
                 min (max F 0) (getBallastTankCapacity (submarineConstants this) / 2),
             currentWaterMassBackTank :=
                 min (max B 0) (getBallastTankCapacity (submarineConstants this) / 2),
             currentTotalWaterMass := newTotal\<rparr>) h"
  unfolding setCurrentTotalWaterMass_def Let_def case_prod_beta
  by (intro exI) (rule refl)

lemma setCurrentTotalWaterMass_total:
  "currentTotalWaterMass (fst (setCurrentTotalWaterMass this h newTotal)) = newTotal"
  using setCurrentTotalWaterMass_shape [of this h newTotal]
  by (auto simp add: autoSetCenterOfMass_fields)

lemma setCurrentTotalWaterMass_constants:
  "submarineConstants (fst (setCurrentTotalWaterMass this h newTotal)) = submarineConstants this"
  using setCurrentTotalWaterMass_shape [of this h newTotal]
  by (auto simp add: autoSetCenterOfMass_fields)

lemma setCurrentTotalWaterMass_bounds:
  assumes "0 \<le> getBallastTankCapacity (submarineConstants this)"
  shows "tank_bounds (fst (setCurrentTotalWaterMass this h newTotal))"
  using setCurrentTotalWaterMass_shape [of this h newTotal] assms
  by (auto simp add: autoSetCenterOfMass_fields tank_bounds_def)

lemma setCurrentTotalWaterMass_sum:
  assumes "0 \<le> newTotal" and "newTotal \<le> getBallastTankCapacity (submarineConstants this)"
  shows "currentWaterMassFrontTank (fst (setCurrentTotalWaterMass this h newTotal))
         + currentWaterMassBackTank (fst (setCurrentTotalWaterMass this h newTotal)) = newTotal"
  using assms
  by (auto simp add: setCurrentTotalWaterMass_def autoSetCenterOfMass_fields Let_def
      min_def max_def split: if_splits; argo)

lemma setCurrentWaterMassFrontTank_fields:
  "currentWaterMassFrontTank (fst (setCurrentWaterMassFrontTank this h v)) = v"
  "currentWaterMassBackTank (fst (setCurrentWaterMassFrontTank this h v)) = currentWaterMassBackTank this"
  "currentTotalWaterMass (fst (setCurrentWaterMassFrontTank this h v)) = v + currentWaterMassBackTank this"
  "submarineConstants (fst (setCurrentWaterMassFrontTank this h v)) = submarineConstants this"
  by (simp_all add: setCurrentWaterMassFrontTank_def autoSetCenterOfMass_fields Let_def
      getCurrentWaterMassBackTank_def)

lemma setCurrentWaterMassBackTank_fields:
  "currentWaterMassBackTank (fst (setCurrentWaterMassBackTank this h v)) = v"
  "currentWaterMassFrontTank (fst (setCurrentWaterMassBackTank this h v)) = currentWaterMassFrontTank this"
  "currentTotalWaterMass (fst (setCurrentWaterMassBackTank this h v)) = v + currentWaterMassFrontTank this"
  "submarineConstants (fst (setCurrentWaterMassBackTank this h v)) = submarineConstants this"
  by (simp_all add: setCurrentWaterMassBackTank_def autoSetCenterOfMass_fields Let_def
      getCurrentWaterMassFrontTank_def)

lemma ohio_30000000:
  "currentWaterMassFrontTank (fst (setCurrentTotalWaterMass ohio_state ohio_store 30000000)) = 9882000"
  "currentWaterMassBackTank (fst (setCurrentTotalWaterMass ohio_state ohio_store 30000000)) = 9882000"
  by (simp_all add: setCurrentTotalWaterMass_def autoSetCenterOfMass_fields Let_def initOhio_state)

lemma ohio_tank_bounds: "tank_bounds ohio_state"
  by (simp add: tank_bounds_def initOhio_state)

section \<open>Theorems over doubles\<close>

subsection \<open>Rounding to the nearest integer and the spacing of the doubles\<close>

lemma rne_of_int [simp]: "rne (of_int n) = n"
  by (simp add: rne_def)

lemma rne_0 [simp]: "rne 0 = 0"
  using rne_of_int [of 0] by simp

lemma rne_le: "v \<le> of_int n \<Longrightarrow> rne v \<le> n"
  unfolding rne_def Let_def
  by (auto simp: floor_le_iff)

lemma rne_ge: "of_int n \<le> v \<Longrightarrow> n \<le> rne v"
proof -
  assume "of_int n \<le> v"
  then have "n \<le> \<lfloor>v\<rfloor>"
    by (simp add: le_floor_iff)
  then show ?thesis
    unfolding rne_def Let_def by auto
qed

lemma ulp_exp_bounds: "- 1074 \<le> ulp_exp v"
  by (simp add: ulp_exp_def)

lemma floor_log2_less:
  assumes "0 < v" and "v < 2 powi n"
  shows "\<lfloor>log 2 v\<rfloor> < n"
proof -
  have "log 2 v < of_int n"
    using assms by (simp add: log_less_iff powr_real_of_int')
  then show ?thesis
    by (simp add: floor_less_iff)
qed

lemma floor_log2_eq:
  assumes "2 powi e \<le> v" and "v < 2 powi (e + 1)"
  shows "\<lfloor>log 2 v\<rfloor> = e"
proof -
  have v: "0 < v"
    using assms(1) zero_less_power_int [of "2::real" e] by linarith
  have "2 powr (real_of_int e) \<le> v"
    using assms(1) by (simp add: powr_real_of_int')
  moreover have "v < 2 powr (real_of_int e + 1)"
    using assms(2) powr_real_of_int' [of "2::real" "e + 1"] by simp
  ultimately show ?thesis
    using v by (simp add: floor_log_eq_powr_iff)
qed

subsection \<open>Rounding to the grid of the doubles\<close>

lemma round_grid_0 [simp]: "round_grid 0 = 0"
  by (simp add: round_grid_def)

lemma ulp_exp_minus [simp]: "ulp_exp (- v) = ulp_exp v"
  by (simp add: ulp_exp_def)

lemma two_powi_pos [simp]: "0 < (2::real) powi q"
  by simp

lemma two_powi_split:
  assumes "q \<le> p"
  shows "(2::real) powi p = 2 ^ nat (p - q) * 2 powi q"
proof -
  have "(2::real) powi p = 2 powi (p - q) * 2 powi q"
    using power_int_add [of "2::real" "p - q" q] by simp
  moreover have "(2::real) powi (p - q) = 2 ^ nat (p - q)"
    using assms by (simp add: power_int_def)
  ultimately show ?thesis by simp
qed

lemma round_grid_nonpos: "v \<le> 0 \<Longrightarrow> round_grid v \<le> 0"
proof -
  assume "v \<le> 0"
  then have "v / 2 powi ulp_exp v \<le> of_int 0"
    by (simp add: divide_nonpos_pos)
  then have "rne (v / 2 powi ulp_exp v) \<le> 0"
    by (rule rne_le)
  then show ?thesis
    by (simp add: round_grid_def mult_nonpos_nonneg)
qed

lemma round_grid_nonneg: "0 \<le> v \<Longrightarrow> 0 \<le> round_grid v"
proof -
  assume "0 \<le> v"
  then have "of_int 0 \<le> v / 2 powi ulp_exp v"
    by simp
  then have "0 \<le> rne (v / 2 powi ulp_exp v)"
    by (rule rne_ge)
  then show ?thesis
    by (simp add: round_grid_def)
qed

lemma ulp_exp_le:
  assumes "0 < \<bar>v\<bar>" and "\<bar>v\<bar> < 2 powi n" and "- 1074 \<le> n - 53"
  shows "ulp_exp v \<le> n - 53"
proof -
  have "\<lfloor>log 2 \<bar>v\<bar>\<rfloor> < n"
    using assms(1,2) by (rule floor_log2_less)
  then show ?thesis
    using assms(3) by (simp add: ulp_exp_def)
qed

text \<open>A multiple of a power of two with a 53-bit factor is left alone by rounding.\<close>

lemma round_grid_exact:
  assumes "v = of_int k * 2 powi q" and "\<bar>k\<bar> < 2 ^ 53" and "- 1074 \<le> q"
  shows "round_grid v = v"
proof (cases "k = 0")
  case True
  with assms(1) show ?thesis by simp
next
  case False
  have pos: "0 < \<bar>v\<bar>"
    using False assms(1) by simp
  have "\<bar>v\<bar> = of_int \<bar>k\<bar> * 2 powi q"
    using assms(1) by (simp add: abs_mult)
  also have "\<dots> < 2 ^ 53 * 2 powi q"
  proof -
    have "real_of_int \<bar>k\<bar> < 2 ^ 53"
      using assms(2) by (metis of_int_less_iff of_int_numeral of_int_power)
    then show ?thesis by simp
  qed
  also have "\<dots> = 2 powi (q + 53)"
    using power_int_add [of "2::real" 53 q] by (simp add: add.commute)
  finally have "\<bar>v\<bar> < 2 powi (q + 53)" .
  from ulp_exp_le [OF pos this] assms(3) have le: "ulp_exp v \<le> q"
    by simp
  define u where "u = ulp_exp v"
  have "(2::real) powi q = 2 ^ nat (q - u) * 2 powi u"
    using le unfolding u_def by (rule two_powi_split)
  then have v: "v = of_int (k * 2 ^ nat (q - u)) * 2 powi u"
    using assms(1) by simp
  then have "v / 2 powi u = of_int (k * 2 ^ nat (q - u))"
    by simp
  then have "rne (v / 2 powi u) = k * 2 ^ nat (q - u)"
    by (simp only: rne_of_int)
  then show ?thesis
    unfolding round_grid_def u_def [symmetric] using v by simp
qed

text \<open>Rounding does not step over the largest double of a binade.\<close>

lemma round_grid_le_scaled:
  assumes "v \<le> (2 ^ 53 - 1) * 2 ^ p"
  shows "round_grid v \<le> (2 ^ 53 - 1) * 2 ^ p"
proof (cases "v \<le> 0")
  case True
  then have "round_grid v \<le> 0" by (rule round_grid_nonpos)
  moreover have "(0::real) \<le> (2 ^ 53 - 1) * 2 ^ p" by simp
  ultimately show ?thesis by linarith
next
  case False
  then have pos: "0 < \<bar>v\<bar>" by simp
  have "((2::real) ^ 53 - 1) * 2 ^ p < 2 ^ 53 * 2 ^ p"
    by (intro mult_strict_right_mono) simp_all
  also have "\<dots> = (2::real) powi (int p + 53)"
    using power_int_add [of "2::real" 53 "int p"] by (simp add: add.commute)
  finally have "\<bar>v\<bar> < 2 powi (int p + 53)"
    using assms False by simp
  from ulp_exp_le [OF pos this] have le: "ulp_exp v \<le> int p"
    by simp
  define u where "u = ulp_exp v"
  have "(2::real) powi (int p) = 2 ^ nat (int p - u) * 2 powi u"
    using le unfolding u_def by (rule two_powi_split)
  then have e: "(2::real) ^ p = 2 ^ nat (int p - u) * 2 powi u"
    by (simp only: power_int_of_nat)
  have "((2::real) ^ 53 - 1) * 2 ^ p = (2 ^ 53 - 1) * (2 ^ nat (int p - u) * 2 powi u)"
    by (simp only: e)
  then have m: "((2::real) ^ 53 - 1) * 2 ^ p
                = of_int ((2 ^ 53 - 1) * 2 ^ nat (int p - u)) * 2 powi u"
    by simp
  have "v / 2 powi u \<le> ((2 ^ 53 - 1) * 2 ^ p) / 2 powi u"
    using assms by (simp add: divide_right_mono)
  also have "\<dots> = of_int ((2 ^ 53 - 1) * 2 ^ nat (int p - u))"
    by (subst m) simp
  finally have "rne (v / 2 powi u) \<le> (2 ^ 53 - 1) * 2 ^ nat (int p - u)"
    by (rule rne_le)
  then have "real_of_int (rne (v / 2 powi u))
             \<le> real_of_int ((2 ^ 53 - 1) * 2 ^ nat (int p - u))"
    by (simp only: of_int_le_iff)
  then have "real_of_int (rne (v / 2 powi u)) * 2 powi u
             \<le> real_of_int ((2 ^ 53 - 1) * 2 ^ nat (int p - u)) * 2 powi u"
    by (rule mult_right_mono) simp
  also have "\<dots> = (2 ^ 53 - 1) * 2 ^ p"
    by (rule m [symmetric])
  finally show ?thesis
    unfolding round_grid_def u_def [symmetric] .
qed

lemma round_grid_le_max:
  assumes "v \<le> max_double"
  shows "round_grid v \<le> max_double"
  using assms round_grid_le_scaled [of v 971] by (simp only: max_double_def)

lemma round_grid_le_half_max:
  assumes "v \<le> max_double / 2"
  shows "round_grid v \<le> max_double / 2"
proof -
  have "max_double / 2 = (2 ^ 53 - 1) * 2 ^ 970"
    by (simp add: max_double_def)
  then show ?thesis
    using assms round_grid_le_scaled [of v 970] by (simp only:)
qed

lemma rne_minus: "rne (- v) = - rne v"
proof (cases "v \<in> \<int>")
  case True
  then obtain n where "v = of_int n" by (auto elim: Ints_cases)
  then show ?thesis
    using rne_of_int [of "- n"] by simp
next
  case False
  then have ne: "v \<noteq> of_int \<lfloor>v\<rfloor>"
    by (metis Ints_of_int)
  then have fr: "of_int \<lfloor>v\<rfloor> < v" "v < of_int \<lfloor>v\<rfloor> + 1"
    by linarith+
  have f: "\<lfloor>- v\<rfloor> = - \<lfloor>v\<rfloor> - 1"
  proof (rule floor_unique)
    have "- real_of_int \<lfloor>v\<rfloor> - 1 \<le> - v"
      using fr(2) by linarith
    then show "real_of_int (- \<lfloor>v\<rfloor> - 1) \<le> - v"
      by (simp only: of_int_diff of_int_minus of_int_1)
    have "- v < - real_of_int \<lfloor>v\<rfloor> - 1 + 1"
      using fr(1) by linarith
    then show "- v < real_of_int (- \<lfloor>v\<rfloor> - 1) + 1"
      by (simp only: of_int_diff of_int_minus of_int_1)
  qed
  show ?thesis
    unfolding rne_def Let_def f using fr
    by (auto simp: algebra_simps)
qed

lemma round_grid_minus: "round_grid (- v) = - round_grid v"
  by (simp add: round_grid_def rne_minus)

lemma round_grid_ge_min:
  assumes "- max_double \<le> v"
  shows "- max_double \<le> round_grid v"
  using round_grid_le_max [of "- v"] assms
  by (simp add: round_grid_minus)

subsection \<open>The rounding of IEEE 754\<close>

lemma round64_not_NaN [simp]: "round64 v \<noteq> NaN"
  by (simp add: round64_def Let_def)

lemma max_double_pos: "0 < max_double"
  by (simp add: max_double_def)

lemma round64_bounded: "\<bar>fv (round64 v)\<bar> \<le> max_double"
  using max_double_pos by (auto simp: round64_def Let_def)

lemma round64_PInf: "round64 v = PInf \<Longrightarrow> max_double < v"
  by (cases "v \<le> max_double")
    (auto simp: round64_def Let_def split: if_splits dest: round_grid_le_max)

lemma round64_NInf: "round64 v = NInf \<Longrightarrow> v < - max_double"
  by (cases "- max_double \<le> v")
    (auto simp: round64_def Let_def split: if_splits dest: round_grid_ge_min)

lemma round64_exact: "is_double v \<Longrightarrow> round64 v = Fin v"
  by (auto simp: round64_def is_double_def Let_def)

lemma is_double_round64: "round64 v = Fin r \<Longrightarrow> \<bar>r\<bar> \<le> max_double"
  using round64_bounded [of v] by simp

subsection \<open>The setters over doubles, field by field\<close>

lemma autoSetCenterOfMass_f64_fields:
  "currentWaterMassFrontTank_f64 (fst (autoSetCenterOfMass_f64 this h)) = currentWaterMassFrontTank_f64 this"
  "currentWaterMassBackTank_f64 (fst (autoSetCenterOfMass_f64 this h)) = currentWaterMassBackTank_f64 this"
  "currentTotalWaterMass_f64 (fst (autoSetCenterOfMass_f64 this h)) = currentTotalWaterMass_f64 this"
  "submarineConstants_f64 (fst (autoSetCenterOfMass_f64 this h)) = submarineConstants_f64 this"
  by (simp_all add: autoSetCenterOfMass_f64_def Vector3_set_f64_def setCenterOfMass_f64_def Let_def)

lemma setCurrentTotalWaterMass_f64_redistribute:
  "setCurrentTotalWaterMass_f64 this h newTotal =
     (let maxTankCapacity = fdiv (getBallastTankCapacity_f64 (submarineConstants_f64 this)) (lit 2);
          r = redistribute_f64 maxTankCapacity (currentWaterMassFrontTank_f64 this)
                (currentWaterMassBackTank_f64 this) newTotal
      in autoSetCenterOfMass_f64
           (this\<lparr>currentWaterMassFrontTank_f64 := Math_min (Math_max (fst r) (lit 0)) maxTankCapacity,
                 currentWaterMassBackTank_f64 := Math_min (Math_max (snd r) (lit 0)) maxTankCapacity,
                 currentTotalWaterMass_f64 := newTotal\<rparr>) h)"
  unfolding setCurrentTotalWaterMass_f64_def redistribute_f64_def Let_def case_prod_beta
  by (rule refl)

subsection \<open>Arithmetic and comparison of doubles\<close>

lemma is_double_0 [simp]: "is_double 0"
  using max_double_pos by (simp add: is_double_def)

lemma is_double_int:
  assumes "\<bar>k\<bar> < 2 ^ 53"
  shows "is_double (of_int k)"
proof -
  have "round_grid (of_int k) = of_int k"
    using round_grid_exact [of "of_int k" k 0] assms by simp
  moreover have "real_of_int \<bar>k\<bar> \<le> 2 ^ 53"
    using assms by (metis less_imp_le of_int_le_iff of_int_numeral of_int_power)
  then have "\<bar>real_of_int k\<bar> \<le> max_double"
    by (simp add: max_double_def)
  ultimately show ?thesis
    by (simp add: is_double_def)
qed

lemma lit_0 [simp]: "lit 0 = Fin 0"
  by (simp add: lit_def round64_exact)

lemma lit_1 [simp]: "lit 1 = Fin 1"
  using is_double_int [of 1] by (simp add: lit_def round64_exact)

lemma lit_2 [simp]: "lit 2 = Fin 2"
  using is_double_int [of 2] by (simp add: lit_def round64_exact)

lemma lit_4 [simp]: "lit 4 = Fin 4"
  using is_double_int [of 4] by (simp add: lit_def round64_exact)

lemma bounded_round64 [simp]: "bounded (round64 v)"
  by (simp add: bounded_def round64_bounded)

lemma bounded_simps [simp]:
  "bounded NaN" "bounded PInf" "bounded NInf" "bounded NegZero" "bounded (Fin 0)"
  using max_double_pos by (simp_all add: bounded_def)

lemma bounded_fadd [simp]: "bounded (fadd a b)"
  by (cases a; cases b) (auto simp: fadd_def)

lemma bounded_fneg: "bounded a \<Longrightarrow> bounded (fneg a)"
  by (cases a) (auto simp: bounded_def)

lemma bounded_fsub [simp]: "bounded (fsub a b)"
  by (simp add: fsub_def)

lemma bounded_fdiv [simp]: "bounded (fdiv a b)"
  by (cases a; cases b) (auto simp: fdiv_def signed_inf_def signed_zero_def)

lemma is_f64_bounded: "is_f64 a \<Longrightarrow> bounded a"
  using max_double_pos by (cases a) (auto simp: bounded_def is_double_def)

lemma fadd_NaN_iff:
  "fadd a b = NaN \<longleftrightarrow> a = NaN \<or> b = NaN \<or> (a = PInf \<and> b = NInf) \<or> (a = NInf \<and> b = PInf)"
  by (cases a; cases b) (auto simp: fadd_def)

lemma fsub_NaN_iff:
  "fsub a b = NaN \<longleftrightarrow> a = NaN \<or> b = NaN \<or> (a = PInf \<and> b = PInf) \<or> (a = NInf \<and> b = NInf)"
  by (cases a; cases b) (auto simp: fsub_def fadd_NaN_iff)

lemma fdiv_2_NaN_iff: "fdiv a (Fin 2) = NaN \<longleftrightarrow> a = NaN"
  by (cases a) (auto simp: fdiv_def signed_inf_def signed_zero_def)

lemma fadd_PInf:
  assumes "fadd a b = PInf"
  shows "a = PInf \<or> b = PInf \<or> (is_finite a \<and> is_finite b \<and> max_double < fv a + fv b)"
  using assms
  by (cases a; cases b) (auto simp: fadd_def is_finite_def split: if_splits dest: round64_PInf)

lemma fadd_NInf:
  assumes "fadd a b = NInf"
  shows "a = NInf \<or> b = NInf \<or> (is_finite a \<and> is_finite b \<and> fv a + fv b < - max_double)"
  using assms
  by (cases a; cases b) (auto simp: fadd_def is_finite_def split: if_splits dest: round64_NInf)

lemma fv_fneg [simp]: "fv (fneg a) = - fv a"
  by (cases a) auto

lemma is_finite_fneg [simp]: "is_finite (fneg a) = is_finite a"
  by (cases a) (auto simp: is_finite_def)

lemma fneg_eq_simps [simp]:
  "fneg a = PInf \<longleftrightarrow> a = NInf" "fneg a = NInf \<longleftrightarrow> a = PInf" "fneg a = NaN \<longleftrightarrow> a = NaN"
  by (cases a; auto)+

lemma fsub_PInf:
  assumes "fsub a b = PInf"
  shows "a = PInf \<or> b = NInf \<or> (is_finite a \<and> is_finite b \<and> max_double < fv a - fv b)"
  using fadd_PInf [of a "fneg b"] assms by (auto simp: fsub_def)

lemma fsub_NInf:
  assumes "fsub a b = NInf"
  shows "a = NInf \<or> b = PInf \<or> (is_finite a \<and> is_finite b \<and> fv a - fv b < - max_double)"
  using fadd_NInf [of a "fneg b"] assms by (auto simp: fsub_def)

text \<open>Comparisons\<close>

lemma flt_Fin [simp]: "flt (Fin u) (Fin v) = (u < v)"
  by (simp add: flt_def)

lemma fle_Fin [simp]: "fle (Fin u) (Fin v) = (u \<le> v)"
  by (simp add: fle_def)

lemma fle_zero_iff:
  "fle (Fin 0) a \<longleftrightarrow> a = PInf \<or> a = NegZero \<or> (\<exists>v. a = Fin v \<and> 0 \<le> v)"
  by (cases a) (auto simp: fle_def)

lemma not_flt_zero:
  assumes "a \<noteq> NaN" and "\<not> flt a (Fin 0)"
  shows "fle (Fin 0) a"
  using assms by (cases a) (auto simp: fle_def flt_def)

lemma clamp_in_bounds:
  assumes "v \<noteq> NaN" and "fle (Fin 0) m"
  shows "fle (Fin 0) (Math_min (Math_max v (Fin 0)) m)"
    and "fle (Math_min (Math_max v (Fin 0)) m) m"
  using assms
  by (cases v; cases m; auto simp: Math_min_def Math_max_def fle_def flt_def)+

lemma clamp_NaN:
  "Math_min (Math_max NaN a) m = NaN"
  by (simp add: Math_min_def Math_max_def)

subsection \<open>The spill passes produce no NaN of their own\<close>

lemma is_finite_cases: "is_finite a \<Longrightarrow> a = NegZero \<or> (\<exists>v. a = Fin v)"
  by (cases a) (auto simp: is_finite_def)

text \<open>Adding the same amount to two finite tanks cannot send one to +Infinity and the
  other to -Infinity.\<close>

lemma add_common_not_opposite:
  assumes "is_finite f" "bounded f" "is_finite b" "bounded b"
  shows "\<not> (fadd f h = PInf \<and> fadd b h = NInf)"
    and "\<not> (fadd f h = NInf \<and> fadd b h = PInf)"
proof -
  have f: "f \<noteq> PInf" "f \<noteq> NInf" "b \<noteq> PInf" "b \<noteq> NInf"
    using assms by (auto simp: is_finite_def)
  have bf: "\<bar>fv f\<bar> \<le> max_double" "\<bar>fv b\<bar> \<le> max_double"
    using assms by (simp_all add: bounded_def)
  show "\<not> (fadd f h = PInf \<and> fadd b h = NInf)"
  proof
    assume a: "fadd f h = PInf \<and> fadd b h = NInf"
    from a fadd_PInf [of f h] f
    have 1: "h = PInf \<or> (is_finite h \<and> max_double < fv f + fv h)" by auto
    from a fadd_NInf [of b h] f
    have 2: "h = NInf \<or> (is_finite h \<and> fv b + fv h < - max_double)" by auto
    from 1 2 bf show False
      by (auto simp: is_finite_def)
  qed
  show "\<not> (fadd f h = NInf \<and> fadd b h = PInf)"
  proof
    assume a: "fadd f h = NInf \<and> fadd b h = PInf"
    from a fadd_NInf [of f h] f
    have 1: "h = NInf \<or> (is_finite h \<and> fv f + fv h < - max_double)" by auto
    from a fadd_PInf [of b h] f
    have 2: "h = PInf \<or> (is_finite h \<and> max_double < fv b + fv h)" by auto
    from 1 2 bf show False
      by (auto simp: is_finite_def)
  qed
qed

lemma fgt_nonneg_finite:
  assumes "fgt a m" and "fle (Fin 0) m"
  shows "is_finite m" and "0 \<le> fv m" and "a \<noteq> NaN" and "a \<noteq> NInf"
    and "a = PInf \<or> (is_finite a \<and> fv m < fv a)"
  using assms
  by (cases a; cases m; auto simp: fgt_def flt_def fle_def is_finite_def)+

text \<open>The overflow of a tank above a non-negative maximum.\<close>

lemma overflow_above_max:
  assumes "fgt a m" and "fle (Fin 0) m" and "bounded a"
  shows "fsub a m \<noteq> NaN" and "fsub a m \<noteq> NInf" and "fsub a m = PInf \<Longrightarrow> a = PInf"
proof -
  note g = fgt_nonneg_finite [OF assms(1,2)]
  have m: "m \<noteq> NaN" "m \<noteq> PInf" "m \<noteq> NInf"
    using g(1) by (auto simp: is_finite_def)
  show "fsub a m \<noteq> NaN"
    using g(3) m by (simp add: fsub_NaN_iff)
  show "fsub a m \<noteq> NInf"
  proof
    assume "fsub a m = NInf"
    from fsub_NInf [OF this] g m max_double_pos show False
      by (auto simp: is_finite_def)
  qed
  show "a = PInf" if "fsub a m = PInf"
  proof -
    from fsub_PInf [OF that] m
    have "a = PInf \<or> max_double < fv a - fv m" by auto
    moreover have "fv a - fv m \<le> max_double"
      using assms(3) g(2) by (simp add: bounded_def)
    ultimately show ?thesis by auto
  qed
qed

lemma fadd_not_NaN_nonneg:
  assumes "fle (Fin 0) a" and "c \<noteq> NaN" and "c \<noteq> NInf"
  shows "fadd a c \<noteq> NaN"
  using assms by (auto simp: fadd_NaN_iff fle_zero_iff)

lemma flt_zero_not_PInf: "flt a (Fin 0) \<Longrightarrow> a \<noteq> PInf \<and> a \<noteq> NaN"
  by (cases a) (auto simp: flt_def)

theorem redistribute_f64_not_NaN:
  assumes f: "is_finite f" "bounded f"
    and b: "is_finite b" "bounded b"
    and d: "fsub newTotal (fadd f b) \<noteq> NaN"
    and m: "fle (Fin 0) m"
  shows "fst (redistribute_f64 m f b newTotal) \<noteq> NaN"
    and "snd (redistribute_f64 m f b newTotal) \<noteq> NaN"
proof -
  define h where "h = fdiv (fsub newTotal (fadd f b)) (lit 2)"
  define nf where "nf = fadd f h"
  define nb where "nb = fadd b h"
  define p1 where "p1 =
    (if fgt nf m then (m, fadd nb (fsub nf m))
     else if flt nf (lit 0) then (lit 0, fadd nb nf)
     else (nf, nb))"
  define p2 where "p2 =
    (if fgt (snd p1) m then (fadd (fst p1) (fsub (snd p1) m), m)
     else if flt (snd p1) (lit 0) then (fadd (fst p1) (snd p1), lit 0)
     else (fst p1, snd p1))"
  have r: "redistribute_f64 m f b newTotal = p2"
    unfolding redistribute_f64_def p2_def p1_def nb_def nf_def h_def Let_def case_prod_beta
    by (rule refl)
  have h: "h \<noteq> NaN"
    using d by (simp add: h_def fdiv_2_NaN_iff)
  have fin: "f \<noteq> NaN" "f \<noteq> PInf" "f \<noteq> NInf" "b \<noteq> NaN" "b \<noteq> PInf" "b \<noteq> NInf"
    using f(1) b(1) by (auto simp: is_finite_def)
  have nf: "nf \<noteq> NaN" and nb: "nb \<noteq> NaN"
    using h fin by (simp_all add: nf_def nb_def fadd_NaN_iff)
  have opp: "\<not> (nf = PInf \<and> nb = NInf)" "\<not> (nf = NInf \<and> nb = PInf)"
    unfolding nf_def nb_def using add_common_not_opposite [OF f b] by blast+
  have bd_nf: "bounded nf" and bd_nb: "bounded nb"
    by (simp_all add: nf_def nb_def)
  have m0: "m \<noteq> NaN"
    using m by (auto simp: fle_def)
  have p1: "fle (Fin 0) (fst p1) \<and> snd p1 \<noteq> NaN \<and> \<not> (fst p1 = PInf \<and> snd p1 = NInf)
            \<and> bounded (snd p1)"
  proof (cases "fgt nf m")
    case True
    note o = overflow_above_max [OF True m bd_nf]
    have "fadd nb (fsub nf m) \<noteq> NaN"
      using o opp nb by (auto simp: fadd_NaN_iff)
    moreover have "m \<noteq> PInf"
      using fgt_nonneg_finite(1) [OF True m] by (auto simp: is_finite_def)
    ultimately show ?thesis
      using True m by (simp add: p1_def)
  next
    case False
    show ?thesis
    proof (cases "flt nf (lit 0)")
      case True
      then have "nf \<noteq> PInf"
        using flt_zero_not_PInf by simp
      then have "fadd nb nf \<noteq> NaN"
        using opp nf nb by (auto simp: fadd_NaN_iff)
      then show ?thesis
        using True False by (simp add: p1_def)
    next
      case nlt: False
      then have "fle (Fin 0) nf"
        using nf not_flt_zero by simp
      then show ?thesis
        using False nlt nb opp bd_nb by (simp add: p1_def)
    qed
  qed
  have "fst p2 \<noteq> NaN \<and> snd p2 \<noteq> NaN"
  proof (cases "fgt (snd p1) m")
    case True
    from p1 have bs: "bounded (snd p1)" by simp
    note o = overflow_above_max [OF True m bs]
    have "fadd (fst p1) (fsub (snd p1) m) \<noteq> NaN"
      using p1 o(1,2) by (intro fadd_not_NaN_nonneg) simp_all
    then show ?thesis
      using True m0 by (simp add: p2_def)
  next
    case False
    show ?thesis
    proof (cases "flt (snd p1) (lit 0)")
      case True
      have "fst p1 \<noteq> NaN" "fst p1 \<noteq> NInf"
        using p1 by (auto simp: fle_zero_iff)
      then have "fadd (fst p1) (snd p1) \<noteq> NaN"
        using p1 by (auto simp: fadd_NaN_iff)
      then show ?thesis
        using True False by (simp add: p2_def)
    next
      case nlt: False
      have "fst p1 \<noteq> NaN"
        using p1 by (auto simp: fle_zero_iff)
      then show ?thesis
        using False nlt p1 by (simp add: p2_def)
    qed
  qed
  then show "fst (redistribute_f64 m f b newTotal) \<noteq> NaN"
    and "snd (redistribute_f64 m f b newTotal) \<noteq> NaN"
    by (simp_all add: r)
qed

subsection \<open>Whole numbers and their halves are not rounded\<close>

lemma halfint_of_int [simp]: "halfint (of_int k)"
  unfolding halfint_def by (rule exI [of _ "2 * k"]) simp

lemma halfint_0 [simp]: "halfint 0"
  using halfint_of_int [of 0] by simp

lemma halfint_half [simp]: "halfint (of_int k / 2)"
  unfolding halfint_def by blast

lemma halfint_add: "halfint u \<Longrightarrow> halfint v \<Longrightarrow> halfint (u + v)"
  unfolding halfint_def
proof -
  assume "\<exists>k::int. u = of_int k / 2" and "\<exists>k::int. v = of_int k / 2"
  then obtain k l :: int where "u = of_int k / 2" "v = of_int l / 2" by blast
  then have "u + v = of_int (k + l) / 2" by simp
  then show "\<exists>k::int. u + v = of_int k / 2" by blast
qed

lemma halfint_minus: "halfint v \<Longrightarrow> halfint (- v)"
  unfolding halfint_def
proof -
  assume "\<exists>k::int. v = of_int k / 2"
  then obtain k :: int where "v = of_int k / 2" by blast
  then have "- v = of_int (- k) / 2" by simp
  then show "\<exists>k::int. - v = of_int k / 2" by blast
qed

lemma halfint_diff: "halfint u \<Longrightarrow> halfint v \<Longrightarrow> halfint (u - v)"
  using halfint_add [of u "- v"] halfint_minus [of v] by simp

lemma halfint_min: "halfint u \<Longrightarrow> halfint v \<Longrightarrow> halfint (min u v)"
  by (simp add: min_def)

lemma halfint_max: "halfint u \<Longrightarrow> halfint v \<Longrightarrow> halfint (max u v)"
  by (simp add: max_def)

lemma is_double_halfint:
  assumes "halfint v" and "\<bar>v\<bar> < 2 ^ 52"
  shows "is_double v"
proof -
  from assms(1) obtain k :: int where k: "v = of_int k / 2"
    unfolding halfint_def by blast
  have "\<bar>real_of_int k\<bar> < 2 ^ 53"
    using assms(2) k by simp
  then have "real_of_int \<bar>k\<bar> < real_of_int (2 ^ 53)"
    by simp
  then have kb: "\<bar>k\<bar> < 2 ^ 53"
    by (simp only: of_int_less_iff)
  have "v = of_int k * 2 powi (- 1)"
    using k by (simp add: power_int_minus field_simps)
  from round_grid_exact [OF this kb] have "round_grid v = v"
    by simp
  moreover have "\<bar>v\<bar> \<le> max_double"
    using assms(2) by (simp add: max_double_def)
  ultimately show ?thesis
    by (simp add: is_double_def)
qed

lemma fadd_exact:
  assumes "halfint u" and "halfint v" and "\<bar>u + v\<bar> < 2 ^ 52"
  shows "fadd (Fin u) (Fin v) = Fin (u + v)"
proof -
  have "is_double (u + v)"
    using assms by (intro is_double_halfint halfint_add)
  then have "round64 (u + v) = Fin (u + v)"
    by (rule round64_exact)
  then show ?thesis
    by (simp add: fadd_def)
qed

lemma fsub_exact:
  assumes "halfint u" and "halfint v" and "\<bar>u - v\<bar> < 2 ^ 52"
  shows "fsub (Fin u) (Fin v) = Fin (u - v)"
proof -
  have "is_double (u - v)"
    using assms by (intro is_double_halfint halfint_diff)
  then have "round64 (u - v) = Fin (u - v)"
    by (rule round64_exact)
  then show ?thesis
    by (auto simp add: fsub_def fadd_def)
qed

lemma fdiv_2_exact:
  assumes "\<bar>real_of_int k\<bar> < 2 ^ 53"
  shows "fdiv (Fin (of_int k)) (Fin 2) = Fin (of_int k / 2)"
proof -
  have "is_double (of_int k / 2)"
    using assms by (intro is_double_halfint) simp_all
  then have "round64 (of_int k / 2) = Fin (of_int k / 2)"
    by (rule round64_exact)
  then show ?thesis
    by (auto simp add: fdiv_def signed_zero_def)
qed

lemma Math_max_Fin_0: "Math_max (Fin v) (Fin 0) = Fin (max v 0)"
  by (auto simp: Math_max_def)

lemma Math_min_Fin: "Math_min (Fin u) (Fin v) = Fin (min u v)"
  by (auto simp: Math_min_def)

lemma fgt_Fin [simp]: "fgt (Fin u) (Fin v) = (v < u)"
  by (simp add: fgt_def)

text \<open>One spill pass on exact half-integers.\<close>

lemma spill_exact:
  assumes "halfint a" and "halfint c" and "halfint m" and "0 \<le> m"
    and "\<bar>a\<bar> + \<bar>c\<bar> + m < 2 ^ 52"
  shows "fsub (Fin a) (Fin m) = Fin (a - m)"
    and "fadd (Fin c) (Fin (a - m)) = Fin (c + (a - m))"
    and "fadd (Fin c) (Fin a) = Fin (c + a)"
proof -
  show "fsub (Fin a) (Fin m) = Fin (a - m)"
    using assms by (intro fsub_exact) auto
  show "fadd (Fin c) (Fin (a - m)) = Fin (c + (a - m))"
    using assms by (intro fadd_exact halfint_diff) auto
  show "fadd (Fin c) (Fin a) = Fin (c + a)"
    using assms by (intro fadd_exact) auto
qed

lemma sum_after_clamp:
  fixes m f b t :: real
  assumes "0 \<le> t" and "t \<le> 2 * m"
  shows "(let nf = f + (t - (f + b)) / 2; nb = b + (t - (f + b)) / 2;
              p1 = (if m < nf then (m, nb + (nf - m)) else if nf < 0 then (0, nb + nf) else (nf, nb));
              p2 = (if m < snd p1 then (fst p1 + (snd p1 - m), m)
                    else if snd p1 < 0 then (fst p1 + snd p1, 0) else (fst p1, snd p1))
          in min (max (fst p2) 0) m + min (max (snd p2) 0) m) = t"
  using assms
  by (auto simp add: Let_def min_def max_def split: if_splits; argo)

theorem redistribute_f64_exact:
  assumes i: "\<bar>real_of_int i\<bar> \<le> 2 ^ 48" and j: "\<bar>real_of_int j\<bar> \<le> 2 ^ 48"
    and t: "0 \<le> t" "t \<le> c" and c: "real_of_int c \<le> 2 ^ 48"
  defines "m \<equiv> fdiv (Fin (of_int c)) (lit 2)"
  defines "r \<equiv> redistribute_f64 m (Fin (of_int i)) (Fin (of_int j)) (Fin (of_int t))"
  shows "\<exists>F B. Math_min (Math_max (fst r) (lit 0)) m = Fin F
             \<and> Math_min (Math_max (snd r) (lit 0)) m = Fin B
             \<and> fadd (Fin F) (Fin B) = Fin (of_int t)"
proof -
  define I J T C where "I = real_of_int i" and "J = real_of_int j"
    and "T = real_of_int t" and "C = real_of_int c"
  have bnd: "\<bar>I\<bar> \<le> 2 ^ 48" "\<bar>J\<bar> \<le> 2 ^ 48" "0 \<le> T" "T \<le> C" "C \<le> 2 ^ 48"
    using i j t c by (simp_all add: I_def J_def T_def C_def)
  define M where "M = C / 2"
  define h where "h = (T - (I + J)) / 2"
  define nf where "nf = I + h"
  define nb where "nb = J + h"
  define p1 where "p1 =
    (if M < nf then (M, nb + (nf - M)) else if nf < 0 then (0, nb + nf) else (nf, nb))"
  define p2 where "p2 =
    (if M < snd p1 then (fst p1 + (snd p1 - M), M)
     else if snd p1 < 0 then (fst p1 + snd p1, 0) else (fst p1, snd p1))"
  have hi [simp]: "halfint I" "halfint J" "halfint T" "halfint M"
    by (simp_all add: I_def J_def T_def C_def M_def)
  have m: "m = Fin M"
  proof -
    have "\<bar>real_of_int c\<bar> < 2 ^ 53"
      using bnd by (simp add: C_def T_def)
    then show ?thesis
      unfolding m_def M_def C_def lit_2 by (rule fdiv_2_exact)
  qed
  have M0: "0 \<le> M" "M \<le> 2 ^ 47"
    using bnd by (simp_all add: M_def)
  have s: "fadd (Fin I) (Fin J) = Fin (I + J)"
    using bnd by (intro fadd_exact) auto
  have d: "fsub (Fin T) (Fin (I + J)) = Fin (T - (I + J))"
    using bnd by (intro fsub_exact halfint_add) auto
  have "T - (I + J) = real_of_int (t - (i + j))"
    by (simp add: I_def J_def T_def)
  moreover have "\<bar>real_of_int (t - (i + j))\<bar> < 2 ^ 53"
    using bnd by (simp add: I_def J_def T_def)
  ultimately have hh: "fdiv (Fin (T - (I + J))) (Fin 2) = Fin h"
    unfolding h_def by (simp only: fdiv_2_exact)
  have hh2 [simp]: "halfint h"
    unfolding h_def I_def J_def T_def
    using halfint_half [of "t - (i + j)"] by simp
  have hb: "\<bar>h\<bar> \<le> 3 * 2 ^ 47"
    using bnd by (simp add: h_def)
  have nf: "fadd (Fin I) (Fin h) = Fin nf" and nb: "fadd (Fin J) (Fin h) = Fin nb"
    unfolding nf_def nb_def using bnd hb by (intro fadd_exact; auto)+
  have hn [simp]: "halfint nf" "halfint nb"
    by (simp_all add: nf_def nb_def halfint_add)
  have nbd: "\<bar>nf\<bar> \<le> 5 * 2 ^ 47" "\<bar>nb\<bar> \<le> 5 * 2 ^ 47"
    using bnd hb by (simp_all add: nf_def nb_def)
  have sp1: "\<bar>nf\<bar> + \<bar>nb\<bar> + M < 2 ^ 52"
    using nbd M0 by simp
  have P1: "(if fgt (Fin nf) (Fin M) then (Fin M, fadd (Fin nb) (fsub (Fin nf) (Fin M)))
             else if flt (Fin nf) (lit 0) then (lit 0, fadd (Fin nb) (Fin nf))
             else (Fin nf, Fin nb)) = (Fin (fst p1), Fin (snd p1))"
    using spill_exact [OF hn(1) hn(2) hi(4) M0(1) sp1]
    by (simp add: p1_def)
  have h1 [simp]: "halfint (fst p1)" "halfint (snd p1)"
    by (simp_all add: p1_def halfint_add halfint_diff)
  have b1: "\<bar>fst p1\<bar> \<le> 5 * 2 ^ 47" "\<bar>snd p1\<bar> \<le> 11 * 2 ^ 47"
    using nbd M0 by (auto simp: p1_def)
  have sp2: "\<bar>snd p1\<bar> + \<bar>fst p1\<bar> + M < 2 ^ 52"
    using b1 M0 by simp
  have P2: "(if fgt (Fin (snd p1)) (Fin M)
               then (fadd (Fin (fst p1)) (fsub (Fin (snd p1)) (Fin M)), Fin M)
             else if flt (Fin (snd p1)) (lit 0)
               then (fadd (Fin (fst p1)) (Fin (snd p1)), lit 0)
             else (Fin (fst p1), Fin (snd p1))) = (Fin (fst p2), Fin (snd p2))"
    using spill_exact [OF h1(2) h1(1) hi(4) M0(1) sp2]
    by (simp add: p2_def)
  have r: "r = (Fin (fst p2), Fin (snd p2))"
    unfolding r_def redistribute_f64_def m I_def [symmetric] J_def [symmetric] T_def [symmetric]
    unfolding Let_def s d lit_2 hh nf nb P1 case_prod_conv fst_conv snd_conv P2
    by (rule refl)
  define F B where "F = min (max (fst p2) 0) M" and "B = min (max (snd p2) 0) M"
  have "F + B = T"
    using sum_after_clamp [of T M I J] bnd
    unfolding F_def B_def p2_def p1_def nf_def nb_def h_def Let_def M_def
    by simp
  moreover have h2 [simp]: "halfint (fst p2)" "halfint (snd p2)"
    by (simp_all add: p2_def halfint_add halfint_diff)
  have "halfint F" "halfint B"
    by (simp_all add: F_def B_def halfint_min halfint_max)
  moreover have "\<bar>F + B\<bar> < 2 ^ 52"
    using \<open>F + B = T\<close> bnd by simp
  ultimately have "fadd (Fin F) (Fin B) = Fin T"
    using fadd_exact [of F B] by simp
  moreover have "Math_min (Math_max (fst r) (lit 0)) m = Fin F"
    and "Math_min (Math_max (snd r) (lit 0)) m = Fin B"
    by (simp_all add: r m F_def B_def Math_max_Fin_0 Math_min_Fin)
  ultimately show ?thesis
    unfolding T_def by blast
qed

subsection \<open>The Ohio preset over doubles\<close>

lemma lit_int: "\<bar>k\<bar> < 2 ^ 53 \<Longrightarrow> lit (of_int k) = Fin (of_int k)"
  by (simp add: lit_def round64_exact is_double_int)

lemma lit_numeral: "numeral n < (2::int) ^ 53 \<Longrightarrow> lit (numeral n) = Fin (numeral n)"
  using lit_int [of "numeral n"] by simp

lemma fdiv_zero_2 [simp]: "fdiv (Fin 0) (Fin 2) = Fin 0"
  by (simp add: fdiv_def signed_zero_def)

lemma initOhio_f64_state:
  "currentWaterMassFrontTank_f64 ohio_state_f64 = Fin 0"
  "currentWaterMassBackTank_f64 ohio_state_f64 = Fin 0"
  "currentTotalWaterMass_f64 ohio_state_f64 = Fin 0"
  "getBallastTankCapacity_f64 (submarineConstants_f64 ohio_state_f64) = Fin 19764000"
proof -
  have "fsub (Fin 36528000) (Fin 16764000) = Fin (36528000 - 16764000)"
    using halfint_of_int [of 36528000] halfint_of_int [of 16764000]
    by (intro fsub_exact) simp_all
  then show "getBallastTankCapacity_f64 (submarineConstants_f64 ohio_state_f64) = Fin 19764000"
    by (simp add: initOhio_f64_def new_Vector3_f64_def new_Quaternion_f64_def new_Matrix3_f64_def
        emptyStore_f64_def getBallastTankCapacity_f64_def Let_def lit_numeral)
qed (simp_all add: initOhio_f64_def new_Vector3_f64_def new_Quaternion_f64_def
      new_Matrix3_f64_def emptyStore_f64_def Let_def)

subsection \<open>Rounding a decimal literal\<close>

lemma max_double_ge: "2 powi 1023 \<le> max_double"
proof -
  have "(2::real) ^ 1023 = 2 ^ 52 * 2 ^ 971"
    by (simp only: power_add [symmetric]) simp
  also have "\<dots> \<le> (2 ^ 53 - 1) * 2 ^ 971"
    by (intro mult_right_mono) simp_all
  finally show ?thesis
    by (simp only: max_double_def power_int_numeral)
qed

text \<open>Rounding a number of a known normal binade.\<close>

lemma round64_normal:
  assumes lo: "2 powi e \<le> \<bar>v\<bar>" and hi: "\<bar>v\<bar> < 2 powi (e + 1)"
    and e: "- 1022 \<le> e" "e \<le> 1022"
    and n: "rne (v / 2 powi (e - 52)) = n"
  shows "round64 v = Fin (of_int n * 2 powi (e - 52))"
proof -
  have fl: "\<lfloor>log 2 \<bar>v\<bar>\<rfloor> = e"
    using lo hi by (rule floor_log2_eq)
  then have u: "ulp_exp v = e - 52"
    using e by (simp add: ulp_exp_def)
  then have r: "round_grid v = of_int n * 2 powi (e - 52)"
    by (simp add: round_grid_def n)
  have p: "(2::real) powi e = 2 ^ 52 * 2 powi (e - 52)"
    using power_int_add [of "2::real" 52 "e - 52"] by simp
  have p1: "(2::real) powi (e + 1) = 2 ^ 53 * 2 powi (e - 52)"
    using power_int_add [of "2::real" 53 "e - 52"] by (simp add: add.commute)
  have big: "(2::real) powi (e + 1) \<le> max_double"
    using power_int_increasing [of "e + 1" 1023 "2::real"] e max_double_ge by simp
  have pos: "0 < (2::real) powi (e - 52)"
    by simp
  show ?thesis
  proof (cases "0 \<le> v")
    case True
    then have "real_of_int (2 ^ 52) \<le> v / 2 powi (e - 52)"
      using lo p by (simp add: pos_le_divide_eq)
    then have "2 ^ 52 \<le> n"
      unfolding n [symmetric] by (rule rne_ge)
    then have "real_of_int (2 ^ 52) \<le> real_of_int n"
      by (simp only: of_int_le_iff)
    then have n0: "0 < real_of_int n" by simp
    have "v / 2 powi (e - 52) \<le> real_of_int (2 ^ 53)"
      using hi True p1 by (simp add: pos_divide_le_eq)
    then have "n \<le> 2 ^ 53"
      unfolding n [symmetric] by (rule rne_le)
    then have "real_of_int n \<le> real_of_int (2 ^ 53)"
      by (simp only: of_int_le_iff)
    then have "real_of_int n * 2 powi (e - 52) \<le> 2 ^ 53 * 2 powi (e - 52)"
      by (simp only: of_int_power of_int_numeral) (intro mult_right_mono, simp_all)
    then have "real_of_int n * 2 powi (e - 52) \<le> max_double"
      using big p1 by linarith
    moreover have "0 < real_of_int n * 2 powi (e - 52)"
      using n0 pos by (rule mult_pos_pos)
    ultimately show ?thesis
      using max_double_pos True by (simp add: round64_def r Let_def)
  next
    case False
    then have neg: "v < 0" by simp
    then have "v / 2 powi (e - 52) \<le> real_of_int (- (2 ^ 52))"
      using lo p by (simp add: pos_divide_le_eq)
    then have "n \<le> - (2 ^ 52)"
      unfolding n [symmetric] by (rule rne_le)
    then have "real_of_int n \<le> real_of_int (- (2 ^ 52))"
      by (simp only: of_int_le_iff)
    then have n0: "real_of_int n < 0" by simp
    have "real_of_int (- (2 ^ 53)) \<le> v / 2 powi (e - 52)"
      using hi neg p1 by (simp add: pos_le_divide_eq)
    then have "- (2 ^ 53) \<le> n"
      unfolding n [symmetric] by (rule rne_ge)
    then have "real_of_int (- (2 ^ 53)) \<le> real_of_int n"
      by (simp only: of_int_le_iff)
    then have "real_of_int (- (2 ^ 53)) * 2 powi (e - 52) \<le> real_of_int n * 2 powi (e - 52)"
      by (intro mult_right_mono) simp_all
    then have "- (2 ^ 53 * 2 powi (e - 52)) \<le> real_of_int n * 2 powi (e - 52)"
      by simp
    then have "- max_double \<le> real_of_int n * 2 powi (e - 52)"
      using big p1 by linarith
    moreover have "real_of_int n * 2 powi (e - 52) < 0"
      using n0 pos by (rule mult_neg_pos)
    ultimately show ?thesis
      using max_double_pos n0 by (simp add: round64_def r Let_def)
  qed
qed

lemma lit_tenth: "lit (1 / 10) = Fin (3602879701896397 / 2 ^ 55)"
  unfolding lit_def
  using round64_normal [of "- 4" "1 / 10" 7205759403792794]
  by (simp add: rne_def)

subsection \<open>The tank bounds after setCurrentTotalWaterMass\<close>

lemma setCurrentTotalWaterMass_f64_fields:
  "currentWaterMassFrontTank_f64 (fst (setCurrentTotalWaterMass_f64 this h newTotal))
     = Math_min (Math_max (fst (redistribute_f64
           (fdiv (getBallastTankCapacity_f64 (submarineConstants_f64 this)) (lit 2))
           (currentWaterMassFrontTank_f64 this) (currentWaterMassBackTank_f64 this) newTotal))
         (lit 0))
         (fdiv (getBallastTankCapacity_f64 (submarineConstants_f64 this)) (lit 2))"
  "currentWaterMassBackTank_f64 (fst (setCurrentTotalWaterMass_f64 this h newTotal))
     = Math_min (Math_max (snd (redistribute_f64
           (fdiv (getBallastTankCapacity_f64 (submarineConstants_f64 this)) (lit 2))
           (currentWaterMassFrontTank_f64 this) (currentWaterMassBackTank_f64 this) newTotal))
         (lit 0))
         (fdiv (getBallastTankCapacity_f64 (submarineConstants_f64 this)) (lit 2))"
  "currentTotalWaterMass_f64 (fst (setCurrentTotalWaterMass_f64 this h newTotal)) = newTotal"
  "submarineConstants_f64 (fst (setCurrentTotalWaterMass_f64 this h newTotal))
     = submarineConstants_f64 this"
  by (simp_all add: setCurrentTotalWaterMass_f64_redistribute Let_def
      autoSetCenterOfMass_f64_fields)

lemma setCurrentWaterMassFrontTank_f64_fields:
  "currentWaterMassFrontTank_f64 (fst (setCurrentWaterMassFrontTank_f64 this h v)) = v"
  "currentWaterMassBackTank_f64 (fst (setCurrentWaterMassFrontTank_f64 this h v))
     = currentWaterMassBackTank_f64 this"
  "currentTotalWaterMass_f64 (fst (setCurrentWaterMassFrontTank_f64 this h v))
     = fadd v (currentWaterMassBackTank_f64 this)"
  "submarineConstants_f64 (fst (setCurrentWaterMassFrontTank_f64 this h v))
     = submarineConstants_f64 this"
  by (simp_all add: setCurrentWaterMassFrontTank_f64_def autoSetCenterOfMass_f64_fields Let_def
      getCurrentWaterMassBackTank_f64_def)

lemma setCurrentWaterMassBackTank_f64_fields:
  "currentWaterMassBackTank_f64 (fst (setCurrentWaterMassBackTank_f64 this h v)) = v"
  "currentWaterMassFrontTank_f64 (fst (setCurrentWaterMassBackTank_f64 this h v))
     = currentWaterMassFrontTank_f64 this"
  "currentTotalWaterMass_f64 (fst (setCurrentWaterMassBackTank_f64 this h v))
     = fadd v (currentWaterMassFrontTank_f64 this)"
  "submarineConstants_f64 (fst (setCurrentWaterMassBackTank_f64 this h v))
     = submarineConstants_f64 this"
  by (simp_all add: setCurrentWaterMassBackTank_f64_def autoSetCenterOfMass_f64_fields Let_def
      getCurrentWaterMassFrontTank_f64_def)

lemma fadd_commute: "fadd a b = fadd b a"
  by (cases a; cases b) (auto simp: fadd_def add.commute)

lemma redistribute_f64_NaN:
  assumes "fsub newTotal (fadd f b) = NaN"
  shows "redistribute_f64 m f b newTotal = (NaN, NaN)"
proof -
  have 1: "fdiv NaN c = NaN" for c by (simp add: fdiv_def)
  have 2: "fadd c NaN = NaN" for c by (simp add: fadd_def)
  have 3: "\<not> fgt NaN c" "\<not> flt NaN c" for c by (simp_all add: fgt_def flt_def)
  show ?thesis
    unfolding redistribute_f64_def Let_def assms 1 2
    by (simp add: 3)
qed

lemma not_fle_NaN [simp]: "\<not> fle a NaN" "\<not> fle NaN a"
  by (simp_all add: fle_def)

lemma round64_nonneg: "0 \<le> v \<Longrightarrow> fle (Fin 0) (round64 v)"
  using round_grid_nonneg [of v] by (auto simp: round64_def Let_def fle_def)

lemma half_nonneg:
  assumes "fge cap (lit 0)"
  shows "fle (Fin 0) (fdiv cap (lit 2))"
proof (cases cap)
  case (Fin c)
  then have "0 \<le> c" using assms by (simp add: fge_def)
  then show ?thesis
    using Fin round64_nonneg [of "c / 2"] by (auto simp: fdiv_def signed_zero_def)
qed (use assms in \<open>auto simp: fge_def fle_def fdiv_def signed_zero_def signed_inf_def\<close>)

lemma half_capacity:
  assumes "is_finite cap" and "is_f64 cap"
  shows "is_finite (fdiv cap (lit 2))" and "fv (fdiv cap (lit 2)) \<le> max_double / 2"
proof -
  have "is_finite (fdiv cap (lit 2)) \<and> fv (fdiv cap (lit 2)) \<le> max_double / 2"
  proof (cases cap)
    case (Fin c)
    with assms(2) have c: "\<bar>c\<bar> \<le> max_double" by (simp add: is_double_def)
    then have up: "round_grid (c / 2) \<le> max_double / 2"
      by (intro round_grid_le_half_max) simp
    have "- max_double \<le> c / 2"
      using c max_double_pos by simp
    then have lo: "- max_double \<le> round_grid (c / 2)"
      by (rule round_grid_ge_min)
    have "is_finite (round64 (c / 2)) \<and> fv (round64 (c / 2)) \<le> max_double / 2"
      using up lo max_double_pos by (auto simp: round64_def Let_def is_finite_def)
    then show ?thesis
      using Fin max_double_pos by (auto simp: fdiv_def signed_zero_def is_finite_def)
  qed (use assms max_double_pos in
      \<open>auto simp: is_finite_def fdiv_def signed_zero_def signed_inf_def\<close>)
  then show "is_finite (fdiv cap (lit 2))" and "fv (fdiv cap (lit 2)) \<le> max_double / 2"
    by simp_all
qed

lemma between_finite:
  assumes "fle (Fin 0) a" and "fle a m" and "is_finite m"
  shows "is_finite a" and "0 \<le> fv a" and "fv a \<le> fv m"
  using assms
  by (cases a; cases m; auto simp: fle_def is_finite_def)+

lemma fle_trans_zero: "fle (Fin 0) a \<Longrightarrow> fle a m \<Longrightarrow> fle (Fin 0) m"
  by (cases a; cases m) (auto simp: fle_def)

text \<open>The tank bounds after the total setter hold exactly when the requested change is a number.\<close>

lemma setCurrentTotalWaterMass_f64_bounds:
  assumes fin: "is_finite (currentWaterMassFrontTank_f64 this)"
      "is_finite (currentWaterMassBackTank_f64 this)"
    and bd: "bounded (currentWaterMassFrontTank_f64 this)"
      "bounded (currentWaterMassBackTank_f64 this)"
    and m: "fle (Fin 0) (fdiv (getBallastTankCapacity_f64 (submarineConstants_f64 this)) (lit 2))"
  shows "tank_bounds_f64 (fst (setCurrentTotalWaterMass_f64 this h newTotal))
         \<longleftrightarrow> fsub newTotal (fadd (currentWaterMassFrontTank_f64 this)
                 (currentWaterMassBackTank_f64 this)) \<noteq> NaN"
proof (cases "fsub newTotal (fadd (currentWaterMassFrontTank_f64 this)
                 (currentWaterMassBackTank_f64 this)) = NaN")
  case True
  then show ?thesis
    by (simp add: tank_bounds_f64_def setCurrentTotalWaterMass_f64_fields
        redistribute_f64_NaN clamp_NaN del: lit_0 lit_2)
next
  case False
  note n = redistribute_f64_not_NaN [OF fin(1) bd(1) fin(2) bd(2) False m]
  show ?thesis
    using False clamp_in_bounds [OF n(1) m] clamp_in_bounds [OF n(2) m]
    by (simp add: tank_bounds_f64_def setCurrentTotalWaterMass_f64_fields)
qed

subsection \<open>The doubles nearest to 0.1, 0.2, 0.6, 0.7 and 1.3\<close>

lemma round64_tenth: "round64 (1 / 10) = Fin (3602879701896397 / 36028797018963968)"
  using round64_normal [of "- 4" "1 / 10" 7205759403792794] by (simp add: rne_def)

lemma round64_fifth: "round64 (1 / 5) = Fin (3602879701896397 / 18014398509481984)"
  using round64_normal [of "- 3" "1 / 5" 7205759403792794] by (simp add: rne_def)

lemma round64_13_tenths: "round64 (13 / 10) = Fin (5854679515581645 / 4503599627370496)"
  using round64_normal [of 0 "13 / 10" 5854679515581645] by (simp add: rne_def)

lemma round64_3_fifths: "round64 (3 / 5) = Fin (5404319552844595 / 9007199254740992)"
  using round64_normal [of "- 1" "3 / 5" 5404319552844595] by (simp add: rne_def)

lemma round64_7_tenths: "round64 (7 / 10) = Fin (3152519739159347 / 4503599627370496)"
  using round64_normal [of "- 1" "7 / 10" 6305039478318694] by (simp add: rne_def)

lemma round64_sum_old:
  "round64 (3602879701896397 / 36028797018963968 + 3602879701896397 / 18014398509481984)
     = Fin (1351079888211149 / 4503599627370496)"
  using round64_normal [of "- 2" "10808639105689191 / 36028797018963968" 5404319552844596]
  by (simp add: rne_def)

lemma round64_new_front:
  "round64 (3602879701896397 / 36028797018963968 + 1 / 2)
     = Fin (5404319552844595 / 9007199254740992)"
  using round64_normal [of "- 1" "21617278211378381 / 36028797018963968" 5404319552844595]
  by (simp add: rne_def)

lemma round64_new_back:
  "round64 (3602879701896397 / 18014398509481984 + 1 / 2)
     = Fin (3152519739159347 / 4503599627370496)"
  using round64_normal [of "- 1" "12610078956637389 / 18014398509481984" 6305039478318694]
  by (simp add: rne_def)

lemma round64_tank_sum:
  "round64 (5404319552844595 / 9007199254740992 + 3152519739159347 / 4503599627370496)
     = Fin (1463669878895411 / 1125899906842624)"
  using round64_normal [of 0 "11709359031163289 / 9007199254740992" 5854679515581644]
  by (simp add: rne_def)

lemma round64_1 [simp]: "round64 1 = Fin 1"
  using lit_1 by (simp add: lit_def)

lemma half_ohio: "fdiv (Fin 19764000) (Fin 2) = Fin 9882000"
  using fdiv_2_exact [of 19764000] by simp

lemma half_one: "fdiv (Fin 1) (Fin 2) = Fin (1 / 2)"
  using fdiv_2_exact [of 1] by simp

lemma fadd_Fin_nonzero: "u \<noteq> 0 \<Longrightarrow> fadd (Fin u) (Fin v) = round64 (u + v)"
  by (simp add: fadd_def)

lemma fsub_Fin_nonzero: "u \<noteq> 0 \<Longrightarrow> v \<noteq> 0 \<Longrightarrow> fsub (Fin u) (Fin v) = round64 (u - v)"
  by (simp add: fsub_def fadd_def)

lemma example_steps:
  "fadd (Fin (3602879701896397 / 36028797018963968)) (Fin (3602879701896397 / 18014398509481984))
     = Fin (1351079888211149 / 4503599627370496)"
  "fsub (Fin (5854679515581645 / 4503599627370496)) (Fin (1351079888211149 / 4503599627370496))
     = Fin 1"
  "fadd (Fin (3602879701896397 / 36028797018963968)) (Fin (1 / 2))
     = Fin (5404319552844595 / 9007199254740992)"
  "fadd (Fin (3602879701896397 / 18014398509481984)) (Fin (1 / 2))
     = Fin (3152519739159347 / 4503599627370496)"
  "fadd (Fin (5404319552844595 / 9007199254740992)) (Fin (3152519739159347 / 4503599627370496))
     = Fin (1463669878895411 / 1125899906842624)"
  by (simp_all only: fadd_Fin_nonzero fsub_Fin_nonzero round64_sum_old round64_new_front
      round64_new_back round64_tank_sum) simp_all

lemma redistribute_f64_example:
  "redistribute_f64 (Fin 9882000) (lit (1 / 10)) (lit (1 / 5)) (lit (13 / 10))
     = (lit (3 / 5), lit (7 / 10))"
  unfolding redistribute_f64_def lit_0 lit_2
  unfolding lit_def round64_tenth round64_fifth round64_13_tenths
    round64_3_fifths round64_7_tenths
  unfolding Let_def example_steps half_one
  by simp

subsection \<open>The example state with the tanks at 0.1 and 0.2\<close>

lemma tenths_state:
  "currentWaterMassFrontTank_f64 (fst tenths) = lit (1 / 10)"
  "currentWaterMassBackTank_f64 (fst tenths) = lit (1 / 5)"
  "getBallastTankCapacity_f64 (submarineConstants_f64 (fst tenths)) = Fin 19764000"
  by (simp_all add: setCurrentWaterMassFrontTank_f64_fields setCurrentWaterMassBackTank_f64_fields
      initOhio_f64_state)

lemma tenths_bounds: "tank_bounds_f64 (fst tenths)"
  by (simp add: tank_bounds_f64_def tenths_state half_ohio)
    (simp add: lit_def round64_tenth round64_fifth)

subsection \<open>Valid tanks on a finite capacity\<close>

lemma valid_tanks_finite:
  assumes "tank_bounds_f64 this"
    and "is_finite (getBallastTankCapacity_f64 (submarineConstants_f64 this))"
    and "is_f64 (getBallastTankCapacity_f64 (submarineConstants_f64 this))"
  shows "is_finite (currentWaterMassFrontTank_f64 this)"
    and "is_finite (currentWaterMassBackTank_f64 this)"
    and "bounded (currentWaterMassFrontTank_f64 this)"
    and "bounded (currentWaterMassBackTank_f64 this)"
    and "fle (Fin 0) (fdiv (getBallastTankCapacity_f64 (submarineConstants_f64 this)) (lit 2))"
    and "fadd (currentWaterMassFrontTank_f64 this) (currentWaterMassBackTank_f64 this) \<noteq> NaN"
    and "is_finite (fadd (currentWaterMassFrontTank_f64 this) (currentWaterMassBackTank_f64 this))"
proof -
  define m where "m = fdiv (getBallastTankCapacity_f64 (submarineConstants_f64 this)) (lit 2)"
  define f where "f = currentWaterMassFrontTank_f64 this"
  define b where "b = currentWaterMassBackTank_f64 this"
  note hc = half_capacity [OF assms(2,3), folded m_def]
  have tb: "fle (Fin 0) f" "fle f m" "fle (Fin 0) b" "fle b m"
    using assms(1) by (simp_all add: tank_bounds_f64_def Let_def m_def f_def b_def)
  note ff = between_finite [OF tb(1,2) hc(1)]
  note fb = between_finite [OF tb(3,4) hc(1)]
  show "is_finite (currentWaterMassFrontTank_f64 this)"
    and "is_finite (currentWaterMassBackTank_f64 this)"
    using ff(1) fb(1) by (simp_all add: f_def b_def)
  have bf: "bounded f" "bounded b"
    using ff(2,3) fb(2,3) hc(2) max_double_pos by (simp_all add: bounded_def)
  then show "bounded (currentWaterMassFrontTank_f64 this)"
    and "bounded (currentWaterMassBackTank_f64 this)"
    by (simp_all add: f_def b_def)
  show "fle (Fin 0) (fdiv (getBallastTankCapacity_f64 (submarineConstants_f64 this)) (lit 2))"
    using fle_trans_zero [OF tb(1,2)] by (simp add: m_def)
  have n: "fadd f b \<noteq> NaN"
    using ff(1) fb(1) by (auto simp: fadd_NaN_iff is_finite_def)
  then show "fadd (currentWaterMassFrontTank_f64 this) (currentWaterMassBackTank_f64 this) \<noteq> NaN"
    by (simp add: f_def b_def)
  have "fadd f b \<noteq> PInf"
  proof
    assume "fadd f b = PInf"
    from fadd_PInf [OF this] ff(1) fb(1) have "max_double < fv f + fv b"
      by (auto simp: is_finite_def)
    with ff(3) fb(3) hc(2) show False by simp
  qed
  moreover have "fadd f b \<noteq> NInf"
  proof
    assume "fadd f b = NInf"
    from fadd_NInf [OF this] ff(1) fb(1) have "fv f + fv b < - max_double"
      by (auto simp: is_finite_def)
    with ff(2) fb(2) max_double_pos show False by simp
  qed
  ultimately show "is_finite (fadd (currentWaterMassFrontTank_f64 this)
      (currentWaterMassBackTank_f64 this))"
    using n by (cases "fadd f b") (auto simp: is_finite_def f_def b_def)
qed

lemma fsub_finite_not_NaN:
  assumes "a \<noteq> NaN" and "is_finite s"
  shows "fsub a s \<noteq> NaN"
  using assms by (auto simp: fsub_NaN_iff is_finite_def)

lemma fsub_from_finite_not_NaN:
  assumes "is_finite a" and "s \<noteq> NaN"
  shows "fsub a s \<noteq> NaN"
  using assms by (auto simp: fsub_NaN_iff is_finite_def)

subsection \<open>The Ohio preset, evaluated over doubles\<close>

lemma halfint_numeral [simp]: "halfint (numeral n)"
  using halfint_of_int [of "numeral n"] by simp

lemma fdiv_2_numeral:
  assumes "(numeral n :: real) < 2 ^ 53"
  shows "fdiv (Fin (numeral n)) (Fin 2) = Fin (numeral n / 2)"
  using fdiv_2_exact [of "numeral n"] assms by simp

lemma ohio_f64_tank_bounds: "tank_bounds_f64 ohio_state_f64"
  by (simp add: tank_bounds_f64_def initOhio_f64_state half_ohio)

lemma ohio_f64_redistribute_10000000:
  "redistribute_f64 (Fin 9882000) (Fin 0) (Fin 0) (Fin 10000000) = (Fin 5000000, Fin 5000000)"
  by (simp add: redistribute_f64_def Let_def fadd_exact fsub_exact fdiv_2_numeral)

lemma ohio_f64_redistribute_30000000:
  "redistribute_f64 (Fin 9882000) (Fin 0) (Fin 0) (Fin 30000000) = (Fin 20118000, Fin 9882000)"
  by (simp add: redistribute_f64_def Let_def fadd_exact fsub_exact fdiv_2_numeral)

lemma ohio_f64_10000000:
  "currentWaterMassFrontTank_f64
     (fst (setCurrentTotalWaterMass_f64 ohio_state_f64 ohio_store_f64 (Fin 10000000))) = Fin 5000000"
  "currentWaterMassBackTank_f64
     (fst (setCurrentTotalWaterMass_f64 ohio_state_f64 ohio_store_f64 (Fin 10000000))) = Fin 5000000"
  by (simp_all add: setCurrentTotalWaterMass_f64_fields initOhio_f64_state half_ohio
      ohio_f64_redistribute_10000000 Math_max_Fin_0 Math_min_Fin)

lemma ohio_f64_30000000:
  "currentWaterMassFrontTank_f64
     (fst (setCurrentTotalWaterMass_f64 ohio_state_f64 ohio_store_f64 (Fin 30000000))) = Fin 9882000"
  "currentWaterMassBackTank_f64
     (fst (setCurrentTotalWaterMass_f64 ohio_state_f64 ohio_store_f64 (Fin 30000000))) = Fin 9882000"
  "currentTotalWaterMass_f64
     (fst (setCurrentTotalWaterMass_f64 ohio_state_f64 ohio_store_f64 (Fin 30000000))) = Fin 30000000"
  by (simp_all add: setCurrentTotalWaterMass_f64_fields initOhio_f64_state half_ohio
      ohio_f64_redistribute_30000000 Math_max_Fin_0 Math_min_Fin)

lemma ohio_f64_capacity:
  "is_finite (getBallastTankCapacity_f64 (submarineConstants_f64 ohio_state_f64))"
  "is_f64 (getBallastTankCapacity_f64 (submarineConstants_f64 ohio_state_f64))"
  using is_double_int [of 19764000]
  by (simp_all add: initOhio_f64_state is_finite_def)

subsection \<open>The example states outside the bounds\<close>

lemma overfull_state:
  "currentWaterMassFrontTank_f64 (fst overfull) = Fin 50000000"
  "currentWaterMassBackTank_f64 (fst overfull) = Fin (- 5)"
  "getBallastTankCapacity_f64 (submarineConstants_f64 (fst overfull)) = Fin 19764000"
  by (simp_all add: setCurrentWaterMassFrontTank_f64_fields setCurrentWaterMassBackTank_f64_fields
      initOhio_f64_state)

lemma infinite_tanks_state:
  "currentWaterMassFrontTank_f64 (fst infinite_tanks) = PInf"
  "currentWaterMassBackTank_f64 (fst infinite_tanks) = NInf"
  "getBallastTankCapacity_f64 (submarineConstants_f64 (fst infinite_tanks)) = Fin 19764000"
  by (simp_all add: setCurrentWaterMassFrontTank_f64_fields setCurrentWaterMassBackTank_f64_fields
      initOhio_f64_state)

section \<open>The claims\<close>

subsection \<open>The ballast setters\<close>




text \<open>
  Claim C2. \<open>setCurrentTotalWaterMass\<close> stores the requested value in
  \<open>currentTotalWaterMass\<close> whatever it is. On the Ohio constants (capacity 19,764,000) and
  from zero ballast, a request of 30,000,000 leaves 9,882,000 in each tank and
  30,000,000 in \<open>currentTotalWaterMass\<close>.
\<close>

theorem C2_raw_total_stored:
  "currentTotalWaterMass (fst (setCurrentTotalWaterMass this h newTotal)) = newTotal
   \<and> getBallastTankCapacity (submarineConstants ohio_state) = 19764000
   \<and> currentWaterMassFrontTank ohio_state = 0
   \<and> currentWaterMassBackTank ohio_state = 0
   \<and> (let this' = fst (setCurrentTotalWaterMass ohio_state ohio_store 30000000) in
        currentWaterMassFrontTank this' = 9882000
        \<and> currentWaterMassBackTank this' = 9882000
        \<and> currentTotalWaterMass this' = 30000000)"
  by (simp add: setCurrentTotalWaterMass_total initOhio_state ohio_30000000)




text \<open>
  Claim C4 says that both tank masses lie in \<open>[0, ballastTankCapacity/2]\<close> after any
  setter call on a state with valid tank masses. On the Ohio submarine at zero ballast
  (per-tank maximum 9,882,000), \<open>setCurrentWaterMassFrontTank(10,000,000)\<close> leaves
  10,000,000 in the front tank.
\<close>

theorem C4_tank_bounds_counterexample:
  "tank_bounds ohio_state
   \<and> getBallastTankCapacity (submarineConstants ohio_state) / 2 = 9882000
   \<and> currentWaterMassFrontTank (fst (setCurrentWaterMassFrontTank ohio_state ohio_store 10000000))
       = 10000000
   \<and> \<not> tank_bounds (fst (setCurrentWaterMassFrontTank ohio_state ohio_store 10000000))"
  by (simp add: ohio_tank_bounds tank_bounds_def initOhio_state
      setCurrentWaterMassFrontTank_fields)

text \<open>
  Claim C4, amended, over doubles. From tank masses in \<open>[0, ballastTankCapacity/2]\<close> and on
  a finite capacity, both tank masses lie in \<open>[0, ballastTankCapacity/2]\<close> after
  \<open>setCurrentTotalWaterMass\<close> with any argument that is not NaN (an infinity included),
  and after \<open>setCurrentWaterMassFrontTank(v)\<close> and \<open>setCurrentWaterMassBackTank(v)\<close> with
  \<open>v\<close> in \<open>[0, ballastTankCapacity/2]\<close>.
\<close>

theorem C4_tank_bounds_f64:
  assumes "tank_bounds_f64 this"
    and "is_finite (getBallastTankCapacity_f64 (submarineConstants_f64 this))"
    and "is_f64 (getBallastTankCapacity_f64 (submarineConstants_f64 this))"
    and "newTotal \<noteq> NaN"
    and "fle (lit 0) v"
    and "fle v (fdiv (getBallastTankCapacity_f64 (submarineConstants_f64 this)) (lit 2))"
  shows "tank_bounds_f64 (fst (setCurrentTotalWaterMass_f64 this h newTotal))
         \<and> tank_bounds_f64 (fst (setCurrentWaterMassFrontTank_f64 this h v))
         \<and> tank_bounds_f64 (fst (setCurrentWaterMassBackTank_f64 this h v))"
proof -
  note t = valid_tanks_finite [OF assms(1,2,3)]
  have d: "fsub newTotal (fadd (currentWaterMassFrontTank_f64 this)
      (currentWaterMassBackTank_f64 this)) \<noteq> NaN"
    using assms(4) t(7) by (rule fsub_finite_not_NaN)
  have "tank_bounds_f64 (fst (setCurrentTotalWaterMass_f64 this h newTotal))"
    using setCurrentTotalWaterMass_f64_bounds [OF t(1,2,3,4,5), of h newTotal] d by simp
  moreover have "tank_bounds_f64 (fst (setCurrentWaterMassFrontTank_f64 this h v))"
    using assms(1,5,6)
    by (simp add: tank_bounds_f64_def setCurrentWaterMassFrontTank_f64_fields Let_def)
  moreover have "tank_bounds_f64 (fst (setCurrentWaterMassBackTank_f64 this h v))"
    using assms(1,5,6)
    by (simp add: tank_bounds_f64_def setCurrentWaterMassBackTank_f64_fields Let_def)
  ultimately show ?thesis by simp
qed

text \<open>
  Witness for the amended C4: the Ohio submarine at zero ballast, asked for a total of
  +Infinity, and with 9,882,000 for the single-tank setters.
\<close>

theorem C4_tank_bounds_f64_witness:
  "tank_bounds_f64 ohio_state_f64
   \<and> getBallastTankCapacity_f64 (submarineConstants_f64 ohio_state_f64) = Fin 19764000
   \<and> is_finite (Fin 19764000) \<and> is_f64 (Fin 19764000)
   \<and> fle (lit 0) (Fin 9882000)
   \<and> fle (Fin 9882000) (fdiv (Fin 19764000) (lit 2))
   \<and> tank_bounds_f64 (fst (setCurrentTotalWaterMass_f64 ohio_state_f64 ohio_store_f64 PInf))
   \<and> tank_bounds_f64 (fst (setCurrentWaterMassFrontTank_f64 ohio_state_f64 ohio_store_f64 (Fin 9882000)))
   \<and> tank_bounds_f64 (fst (setCurrentWaterMassBackTank_f64 ohio_state_f64 ohio_store_f64 (Fin 9882000)))"
proof -
  have "PInf \<noteq> NaN"
    and "fle (lit 0) (Fin 9882000)"
    and "fle (Fin 9882000)
      (fdiv (getBallastTankCapacity_f64 (submarineConstants_f64 ohio_state_f64)) (lit 2))"
    by (simp_all add: initOhio_f64_state half_ohio)
  from C4_tank_bounds_f64 [OF ohio_f64_tank_bounds ohio_f64_capacity this, of ohio_store_f64]
  show ?thesis
    using ohio_f64_capacity
    by (simp add: initOhio_f64_state ohio_f64_tank_bounds half_ohio)
qed

text \<open>
  Claim C5. \<open>setCurrentWaterMassFrontTank(v)\<close> stores \<open>v\<close> in the front tank as it is,
  sets \<open>currentTotalWaterMass\<close> to \<open>v\<close> plus the back tank mass and leaves the back tank
  alone; \<open>setCurrentWaterMassBackTank\<close> does the same with the tanks exchanged. With
  2,000,000 in the back tank, \<open>setCurrentWaterMassFrontTank(5,000,000)\<close> gives a total of
  7,000,000 whatever the capacity; on the Ohio submarine a front mass of 10,000,000 is
  stored although the per-tank maximum is 9,882,000.
\<close>

theorem C5_single_tank_setters:
  "(let this' = fst (setCurrentWaterMassFrontTank this h v) in
      currentWaterMassFrontTank this' = v
      \<and> currentTotalWaterMass this' = v + currentWaterMassBackTank this
      \<and> currentWaterMassBackTank this' = currentWaterMassBackTank this)
   \<and> (let this' = fst (setCurrentWaterMassBackTank this h v) in
      currentWaterMassBackTank this' = v
      \<and> currentTotalWaterMass this' = v + currentWaterMassFrontTank this
      \<and> currentWaterMassFrontTank this' = currentWaterMassFrontTank this)
   \<and> (let this' = fst (setCurrentWaterMassFrontTank
                         (this\<lparr>currentWaterMassBackTank := 2000000\<rparr>) h 5000000) in
      currentTotalWaterMass this' = 7000000
      \<and> currentWaterMassFrontTank this' = 5000000)
   \<and> (let this' = fst (setCurrentWaterMassFrontTank
                         (fst (setCurrentWaterMassBackTank ohio_state ohio_store 2000000))
                         (snd (setCurrentWaterMassBackTank ohio_state ohio_store 2000000))
                         10000000) in
      currentTotalWaterMass this' = 12000000
      \<and> currentWaterMassFrontTank this' = 10000000
      \<and> getBallastTankCapacity (submarineConstants this') / 2 = 9882000)"
  by (simp add: Let_def setCurrentWaterMassFrontTank_fields setCurrentWaterMassBackTank_fields
      initOhio_state)

subsection \<open>The center of mass\<close>

lemma autoSetCenterOfMass_value:
  "vectors (snd (autoSetCenterOfMass this h)) (centerOfMass this)
     = \<lparr>x = 0, y = 0,
        z = ((currentWaterMassFrontTank this - currentWaterMassBackTank this)
               / (getBallastTankCapacity (submarineConstants this) / 2))
            * (getLength (submarineConstants this) / 4)\<rparr>"
  by (simp add: autoSetCenterOfMass_def Vector3_set_def setCenterOfMass_def Let_def)
    (simp add: divide_simps)

lemma autoSetCenterOfMass_vector:
  "vectors (snd (autoSetCenterOfMass this h)) (centerOfMass (fst (autoSetCenterOfMass this h)))
     = spec_centerOfMass (fst (autoSetCenterOfMass this h))"
  by (simp only: spec_centerOfMass_def autoSetCenterOfMass_fields autoSetCenterOfMass_value)

lemma ballast_setter_ends_in_autoSetCenterOfMass:
  assumes "r = setCurrentTotalWaterMass this h v
           \<or> r = setCurrentWaterMassFrontTank this h v
           \<or> r = setCurrentWaterMassBackTank this h v"
  shows "\<exists>s. r = autoSetCenterOfMass s h"
  using assms setCurrentTotalWaterMass_shape [of this h v]
  by (auto simp add: setCurrentWaterMassFrontTank_def setCurrentWaterMassBackTank_def Let_def)

lemma scaled_sign:
  fixes d c l :: real
  assumes "0 < c" and "0 < l"
  shows "sgn (d / c * l) = sgn d" and "\<bar>d / c * l\<bar> = \<bar>d\<bar> / c * l"
  using assms by (simp_all add: sgn_mult abs_mult)

lemma spec_centerOfMass_sign:
  assumes "0 < getBallastTankCapacity (submarineConstants s)"
    and "0 < getLength (submarineConstants s)"
  shows "sgn (z (spec_centerOfMass s))
           = sgn (currentWaterMassFrontTank s - currentWaterMassBackTank s)"
    and "\<bar>z (spec_centerOfMass s)\<bar>
           = \<bar>currentWaterMassFrontTank s - currentWaterMassBackTank s\<bar>
               / (getBallastTankCapacity (submarineConstants s) / 2)
               * (getLength (submarineConstants s) / 4)"
proof -
  from assms have "0 < getBallastTankCapacity (submarineConstants s) / 2"
    and "0 < getLength (submarineConstants s) / 4"
    by simp_all
  from scaled_sign [OF this]
  show "sgn (z (spec_centerOfMass s))
           = sgn (currentWaterMassFrontTank s - currentWaterMassBackTank s)"
    and "\<bar>z (spec_centerOfMass s)\<bar>
           = \<bar>currentWaterMassFrontTank s - currentWaterMassBackTank s\<bar>
               / (getBallastTankCapacity (submarineConstants s) / 2)
               * (getLength (submarineConstants s) / 4)"
    by (simp_all only: spec_centerOfMass_def Vector3.simps)
qed


lemma ohio_constants_after:
  "getBallastTankCapacity (submarineConstants (fst (setCurrentTotalWaterMass ohio_state ohio_store v))) = 19764000"
  "getLength (submarineConstants (fst (setCurrentTotalWaterMass ohio_state ohio_store v))) = 170"
  "getBallastTankCapacity (submarineConstants (fst (setCurrentWaterMassFrontTank ohio_state ohio_store v))) = 19764000"
  "getLength (submarineConstants (fst (setCurrentWaterMassFrontTank ohio_state ohio_store v))) = 170"
  "getBallastTankCapacity (submarineConstants (fst (setCurrentWaterMassBackTank ohio_state ohio_store v))) = 19764000"
  "getLength (submarineConstants (fst (setCurrentWaterMassBackTank ohio_state ohio_store v))) = 170"
  by (simp_all add: setCurrentTotalWaterMass_constants setCurrentWaterMassFrontTank_fields
      setCurrentWaterMassBackTank_fields initOhio_state)


subsection \<open>Rotation by a unit quaternion\<close>

lemma rotate_dot:
  assumes "unit_quaternion q"
  shows "dot (rotateByQuaternion q u) (rotateByQuaternion q v) = dot u v"
proof -
  obtain a b c d where q: "qx q = a" "qy q = b" "qz q = c" "qw q = d"
    by simp
  obtain u1 u2 u3 where u: "x u = u1" "y u = u2" "z u = u3"
    by simp
  obtain v1 v2 v3 where v: "x v = v1" "y v = v2" "z v = v3"
    by simp
  from assms have n: "a\<^sup>2 + b\<^sup>2 + c\<^sup>2 + d\<^sup>2 = 1"
    by (simp add: unit_quaternion_def q)
  show ?thesis
    unfolding dot_def rotateByQuaternion_def Let_def
    using n by (simp add: q u v) algebra
qed

lemma rotate_cross:
  assumes "unit_quaternion q"
  shows "crossVectors (rotateByQuaternion q u) (rotateByQuaternion q v) = rotateByQuaternion q (crossVectors u v)"
proof -
  obtain a b c d where q: "qx q = a" "qy q = b" "qz q = c" "qw q = d"
    by simp
  obtain u1 u2 u3 where u: "x u = u1" "y u = u2" "z u = u3"
    by simp
  obtain v1 v2 v3 where v: "x v = v1" "y v = v2" "z v = v3"
    by simp
  from assms have n: "a\<^sup>2 + b\<^sup>2 + c\<^sup>2 + d\<^sup>2 = 1"
    by (simp add: unit_quaternion_def q)
  have "x (crossVectors (rotateByQuaternion q u) (rotateByQuaternion q v)) = x (rotateByQuaternion q (crossVectors u v))"
    unfolding crossVectors_def rotateByQuaternion_def Let_def
    using n by (simp add: q u v) algebra
  moreover
  have "y (crossVectors (rotateByQuaternion q u) (rotateByQuaternion q v)) = y (rotateByQuaternion q (crossVectors u v))"
    unfolding crossVectors_def rotateByQuaternion_def Let_def
    using n by (simp add: q u v) algebra
  moreover
  have "z (crossVectors (rotateByQuaternion q u) (rotateByQuaternion q v)) = z (rotateByQuaternion q (crossVectors u v))"
    unfolding crossVectors_def rotateByQuaternion_def Let_def
    using n by (simp add: q u v) algebra
  ultimately show ?thesis
    by (simp add: Vector3.equality)
qed

lemma getForwardAxis_value:
  "vectors (snd (getForwardAxis this h)) (fst (getForwardAxis this h))
     = rotateByQuaternion (quaternions h (currentOrientation this)) \<lparr>x = 0, y = 0, z = 1\<rparr>"
  by (simp add: getForwardAxis_def new_Vector3_def getCurrentOrientation_def
      Quaternion_clone_def applyQuaternion_def Let_def)

lemma getUpAxis_value:
  "vectors (snd (getUpAxis this h)) (fst (getUpAxis this h))
     = rotateByQuaternion (quaternions h (currentOrientation this)) \<lparr>x = 0, y = 1, z = 0\<rparr>"
  by (simp add: getUpAxis_def new_Vector3_def getCurrentOrientation_def
      Quaternion_clone_def applyQuaternion_def Let_def)

lemma getRightAxis_value:
  "vectors (snd (getRightAxis this h)) (fst (getRightAxis this h))
     = crossVectors (vectors (snd (getUpAxis this h)) (fst (getUpAxis this h)))
         (vectors (snd (getForwardAxis this h)) (fst (getForwardAxis this h)))"
  by (simp add: getRightAxis_def getUpAxis_def getForwardAxis_def new_Vector3_def
      getCurrentOrientation_def Quaternion_clone_def applyQuaternion_def cross_def Let_def)

text \<open>
  Claim C7. For a unit quaternion as the orientation, \<open>getForwardAxis\<close> returns the
  rotation of \<open>(0,0,1)\<close>, \<open>getUpAxis\<close> the rotation of \<open>(0,1,0)\<close>, \<open>getRightAxis\<close> the
  cross product up \<open>\<times>\<close> forward (which is not forward \<open>\<times>\<close> up), and the three vectors
  are unit vectors, orthogonal to one another.
\<close>

theorem C7_body_axes:
  assumes "unit_quaternion (quaternions h (currentOrientation this))"
  shows "let q = quaternions h (currentOrientation this);
             forwardAxis = vectors (snd (getForwardAxis this h)) (fst (getForwardAxis this h));
             upAxis = vectors (snd (getUpAxis this h)) (fst (getUpAxis this h));
             rightAxis = vectors (snd (getRightAxis this h)) (fst (getRightAxis this h))
         in forwardAxis = rotateByQuaternion q \<lparr>x = 0, y = 0, z = 1\<rparr>
            \<and> upAxis = rotateByQuaternion q \<lparr>x = 0, y = 1, z = 0\<rparr>
            \<and> rightAxis = crossVectors upAxis forwardAxis
            \<and> rightAxis \<noteq> crossVectors forwardAxis upAxis
            \<and> dot forwardAxis forwardAxis = 1
            \<and> dot upAxis upAxis = 1
            \<and> dot rightAxis rightAxis = 1
            \<and> dot forwardAxis upAxis = 0
            \<and> dot upAxis rightAxis = 0
            \<and> dot rightAxis forwardAxis = 0"
proof -
  let ?q = "quaternions h (currentOrientation this)"
  let ?f = "rotateByQuaternion ?q \<lparr>x = 0, y = 0, z = 1\<rparr>"
  let ?u = "rotateByQuaternion ?q \<lparr>x = 0, y = 1, z = 0\<rparr>"
  let ?r = "rotateByQuaternion ?q \<lparr>x = 1, y = 0, z = 0\<rparr>"
  have uf: "crossVectors ?u ?f = ?r"
    by (simp add: rotate_cross [OF assms]) (simp add: crossVectors_def)
  have fu: "crossVectors ?f ?u = rotateByQuaternion ?q \<lparr>x = - 1, y = 0, z = 0\<rparr>"
    by (simp add: rotate_cross [OF assms]) (simp add: crossVectors_def)
  have "dot ?r ?r = 1"
    by (simp add: rotate_dot [OF assms]) (simp add: dot_def)
  moreover have "dot ?r (rotateByQuaternion ?q \<lparr>x = - 1, y = 0, z = 0\<rparr>) = - 1"
    by (simp add: rotate_dot [OF assms]) (simp add: dot_def)
  ultimately have ne: "?r \<noteq> rotateByQuaternion ?q \<lparr>x = - 1, y = 0, z = 0\<rparr>"
    by auto
  have d: "dot ?f ?f = 1" "dot ?u ?u = 1" "dot ?r ?r = 1"
    "dot ?f ?u = 0" "dot ?u ?r = 0" "dot ?r ?f = 0"
    by (simp_all add: rotate_dot [OF assms]) (simp_all add: dot_def)
  show ?thesis
    unfolding Let_def getRightAxis_value getForwardAxis_value getUpAxis_value uf fu
    using ne d by simp
qed

text \<open>
  Witness for C7: the Ohio submarine with the orientation \<open>(1/2, 1/2, 1/2, 1/2)\<close>, the
  turn by a third of a circle about \<open>(1,1,1)\<close>.
\<close>

theorem C7_body_axes_witness:
  "(let h = ohio_store\<lparr>quaternions := (quaternions ohio_store)
                 (currentOrientation ohio_state := \<lparr>qx = 1/2, qy = 1/2, qz = 1/2, qw = 1/2\<rparr>)\<rparr>
    in unit_quaternion (quaternions h (currentOrientation ohio_state))
       \<and> vectors (snd (getForwardAxis ohio_state h)) (fst (getForwardAxis ohio_state h))
           = \<lparr>x = 1, y = 0, z = 0\<rparr>
       \<and> vectors (snd (getUpAxis ohio_state h)) (fst (getUpAxis ohio_state h))
           = \<lparr>x = 0, y = 0, z = 1\<rparr>
       \<and> vectors (snd (getRightAxis ohio_state h)) (fst (getRightAxis ohio_state h))
           = \<lparr>x = 0, y = 1, z = 0\<rparr>)"
proof -
  let ?h = "ohio_store\<lparr>quaternions := (quaternions ohio_store)
                 (currentOrientation ohio_state := \<lparr>qx = 1/2, qy = 1/2, qz = 1/2, qw = 1/2\<rparr>)\<rparr>"
  have u: "unit_quaternion (quaternions ?h (currentOrientation ohio_state))"
    by (simp add: unit_quaternion_def power2_eq_square)
  from C7_body_axes [OF u] show ?thesis
    using u by (simp add: Let_def rotateByQuaternion_def crossVectors_def)
qed

subsection \<open>Getters and aliasing\<close>

lemma cloning_getters_independent:
  assumes "currentSpeed this < nextRef h" and "currentAcceleration this < nextRef h"
    and "currentPosition this < nextRef h" and "currentOrientation this < nextRef h"
    and "angularVelocity this < nextRef h" and "angularAcceleration this < nextRef h"
  shows "fst (getCurrentSpeed this h) \<noteq> currentSpeed this"
    and "fst (getCurrentAcceleration this h) \<noteq> currentAcceleration this"
    and "fst (getCurrentPosition this h) \<noteq> currentPosition this"
    and "fst (getCurrentOrientation this h) \<noteq> currentOrientation this"
    and "fst (getAngularVelocity this h) \<noteq> angularVelocity this"
    and "fst (getAngularAcceleration this h) \<noteq> angularAcceleration this"
    and "vectors (snd (Vector3_set (fst (getCurrentSpeed this h)) a b c
            (snd (getCurrentSpeed this h)))) (currentSpeed this)
          = vectors h (currentSpeed this)"
  using assms
  by (simp_all add: getCurrentSpeed_def getCurrentAcceleration_def getCurrentPosition_def
      getCurrentOrientation_def getAngularVelocity_def getAngularAcceleration_def
      Vector3_clone_def Quaternion_clone_def Vector3_set_def)

text \<open>
  Claim C8 says that every getter of a vector, quaternion or matrix field returns an
  independent copy. \<open>getCenterOfMass\<close> and \<open>getMomentOfInertia\<close> return the reference the
  field holds: a \<open>set\<close> on the vector that \<open>getCenterOfMass\<close> returned changes the
  state's center of mass, on every state and on the Ohio submarine from \<open>(0,0,0)\<close> to
  \<open>(1,2,3)\<close>.
\<close>

theorem C8_getCenterOfMass_returns_internal_reference:
  "fst (getCenterOfMass this h) = centerOfMass this
   \<and> fst (getMomentOfInertia this h) = momentOfInertia this
   \<and> (let (r, h1) = getCenterOfMass this h;
            (_, h2) = Vector3_set r a b c h1
        in vectors h2 (centerOfMass this) = \<lparr>x = a, y = b, z = c\<rparr>)
   \<and> (let (r, h1) = getCenterOfMass ohio_state ohio_store;
            (_, h2) = Vector3_set r 1 2 3 h1
        in vectors ohio_store (centerOfMass ohio_state) = \<lparr>x = 0, y = 0, z = 0\<rparr>
           \<and> vectors h2 (centerOfMass ohio_state) = \<lparr>x = 1, y = 2, z = 3\<rparr>)"
  by (simp add: getCenterOfMass_def getMomentOfInertia_def Vector3_set_def
      initOhio_state initOhio_store)

subsection \<open>The collection of submarines\<close>

lemma SubmarineType_not_inherited:
  "SubmarineType_Ohio \<notin> set Object_prototype_keys"
  "SubmarineType_Typhoon \<notin> set Object_prototype_keys"
  "SubmarineType_Ohio \<noteq> SubmarineType_Typhoon"
  by (simp_all add: SubmarineType_Ohio_def SubmarineType_Typhoon_def Object_prototype_keys_def)

lemma switchSubmarine_fields:
  "items (switchSubmarine this submarine) = items this"
  "current (switchSubmarine this submarine) = property_get (items this) submarine"
  "triggered (switchSubmarine this submarine) = triggered this @ [SwitchSubmarine]"
  by (simp_all add: switchSubmarine_def trigger_def Let_def)

lemma new_Subamrines_fields:
  "items (fst (new_Subamrines h))
     = [SubmarineType_Ohio \<mapsto> fst (initOhio h),
        SubmarineType_Typhoon \<mapsto> fst (initTyphoon (snd (initOhio h)))]"
  "current (fst (new_Subamrines h))
     = SubmarineObject (fst (initTyphoon (snd (initOhio h))))"
  "triggered (fst (new_Subamrines h)) = []"
  by (simp_all add: new_Subamrines_def initItems_def Let_def case_prod_beta property_get_def)

lemma reachable_registered:
  assumes "reachable this"
  shows "dom (items this) = {SubmarineType_Ohio, SubmarineType_Typhoon}"
  using assms
proof (induction rule: reachable.induct)
  case (constructed h)
  show ?case by (auto simp: new_Subamrines_fields split: if_splits)
next
  case (switched this submarine)
  then show ?case by (simp add: switchSubmarine_fields)
qed

text \<open>
  Claim C9 says that \<open>switchSubmarine\<close> and \<open>getSubmarine\<close> signal a lookup failure for an
  identifier that is not a registered submarine, and do not proceed as if a submarine had
  been found. In the collection the constructor builds, \<open>switchSubmarine\<close> with the
  unknown identifier "Nautilus" replaces the current submarine by \<open>undefined\<close> and
  triggers the same \<open>SwitchSubmarine\<close> event as a switch to "Ohio" does. And for the
  identifier "toString", which is not registered either, \<open>getSubmarine\<close> returns the
  function that \<open>items\<close> inherits from \<open>Object.prototype\<close>, not \<open>undefined\<close>, and
  \<open>switchSubmarine\<close> makes that function the current submarine.
\<close>

theorem C9_unknown_identifier_counterexample:
  "''Nautilus'' \<notin> dom (items (fst (new_Subamrines emptyStore)))
   \<and> getCurrentSubmarine (switchSubmarine (fst (new_Subamrines emptyStore)) ''Nautilus'')
       = Undefined
   \<and> triggered (switchSubmarine (fst (new_Subamrines emptyStore)) ''Nautilus'')
       = [SwitchSubmarine]
   \<and> triggered (switchSubmarine (fst (new_Subamrines emptyStore)) ''Nautilus'')
       = triggered (switchSubmarine (fst (new_Subamrines emptyStore)) SubmarineType_Ohio)
   \<and> ''toString'' \<notin> dom (items (fst (new_Subamrines emptyStore)))
   \<and> getSubmarine (fst (new_Subamrines emptyStore)) ''toString''
       = InheritedMember ''toString''
   \<and> getSubmarine (fst (new_Subamrines emptyStore)) ''toString'' \<noteq> Undefined
   \<and> getCurrentSubmarine (switchSubmarine (fst (new_Subamrines emptyStore)) ''toString'')
       = InheritedMember ''toString''"
  by (simp add: new_Subamrines_fields switchSubmarine_fields getSubmarine_def
      getCurrentSubmarine_def property_get_def SubmarineType_Ohio_def SubmarineType_Typhoon_def
      Object_prototype_keys_def)

text \<open>
  Claim C9, amended. In every collection that the constructor and \<open>switchSubmarine\<close>
  produce, and for every identifier other than the two registered ones: the identifier is
  not a key of \<open>items\<close>; \<open>getSubmarine\<close> returns \<open>undefined\<close>, unless the identifier is a
  name of \<open>Object.prototype\<close>, and then it returns the member inherited under that name;
  \<open>switchSubmarine\<close> does not check the lookup: it makes that same value the current
  submarine, which \<open>getCurrentSubmarine\<close> then returns, leaves \<open>items\<close> as it was, and
  triggers \<open>SwitchSubmarine\<close> all the same.
\<close>

theorem C9_unknown_identifier_amended:
  assumes "reachable this"
    and "identifier \<noteq> SubmarineType_Ohio"
    and "identifier \<noteq> SubmarineType_Typhoon"
  shows "identifier \<notin> dom (items this)
       \<and> getSubmarine this identifier
           = (if identifier \<in> set Object_prototype_keys
              then InheritedMember identifier else Undefined)
       \<and> getCurrentSubmarine (switchSubmarine this identifier) = getSubmarine this identifier
       \<and> items (switchSubmarine this identifier) = items this
       \<and> triggered (switchSubmarine this identifier) = triggered this @ [SwitchSubmarine]"
proof -
  from reachable_registered [OF assms(1)] assms(2,3)
  have n: "identifier \<notin> dom (items this)" by simp
  then have "items this identifier = None" by blast
  then have "property_get (items this) identifier
      = (if identifier \<in> set Object_prototype_keys
         then InheritedMember identifier else Undefined)"
    by (simp add: property_get_def)
  with n show ?thesis
    by (simp add: getSubmarine_def getCurrentSubmarine_def switchSubmarine_fields)
qed

text \<open>
  Witness for the amended C9: the identifier "Nautilus" in the collection the constructor
  builds, after a switch to "Ohio".
\<close>

theorem C9_unknown_identifier_amended_witness:
  "reachable (switchSubmarine (fst (new_Subamrines emptyStore)) SubmarineType_Ohio)
   \<and> ''Nautilus'' \<noteq> SubmarineType_Ohio \<and> ''Nautilus'' \<noteq> SubmarineType_Typhoon
   \<and> getSubmarine (switchSubmarine (fst (new_Subamrines emptyStore)) SubmarineType_Ohio)
        ''Nautilus'' = Undefined
   \<and> getCurrentSubmarine
        (switchSubmarine (switchSubmarine (fst (new_Subamrines emptyStore)) SubmarineType_Ohio)
           ''Nautilus'') = Undefined
   \<and> triggered
        (switchSubmarine (switchSubmarine (fst (new_Subamrines emptyStore)) SubmarineType_Ohio)
           ''Nautilus'') = [SwitchSubmarine, SwitchSubmarine]"
proof -
  have r: "reachable (switchSubmarine (fst (new_Subamrines emptyStore)) SubmarineType_Ohio)"
    by (intro reachable.intros)
  have k: "''Nautilus'' \<noteq> SubmarineType_Ohio" "''Nautilus'' \<noteq> SubmarineType_Typhoon"
    "''Nautilus'' \<notin> set Object_prototype_keys"
    by (simp_all add: SubmarineType_Ohio_def SubmarineType_Typhoon_def Object_prototype_keys_def)
  from C9_unknown_identifier_amended [OF r k(1,2)] show ?thesis
    using r k by (simp add: switchSubmarine_fields new_Subamrines_fields)
qed

subsection \<open>The final clamp\<close>

text \<open>
  Claim C10 says that, on a capacity that is not negative, both tank masses lie in
  \<open>[0, ballastTankCapacity/2]\<close> after \<open>setCurrentTotalWaterMass\<close>, for every starting state
  and every requested total. On the Ohio submarine at zero ballast the argument NaN
  leaves NaN in both tanks: \<open>Math.min(Math.max(NaN, 0), max)\<close> is NaN. And from the tanks
  +Infinity and -Infinity, which the single-tank setters store, the old total is NaN, and
  a requested total of 0 leaves NaN in both tanks.
\<close>

theorem C10_NaN_counterexample:
  "fge (getBallastTankCapacity_f64 (submarineConstants_f64 ohio_state_f64)) (lit 0)
   \<and> currentWaterMassFrontTank_f64
       (fst (setCurrentTotalWaterMass_f64 ohio_state_f64 ohio_store_f64 NaN)) = NaN
   \<and> currentWaterMassBackTank_f64
       (fst (setCurrentTotalWaterMass_f64 ohio_state_f64 ohio_store_f64 NaN)) = NaN
   \<and> \<not> tank_bounds_f64 (fst (setCurrentTotalWaterMass_f64 ohio_state_f64 ohio_store_f64 NaN))
   \<and> currentWaterMassFrontTank_f64 (fst infinite_tanks) = PInf
   \<and> currentWaterMassBackTank_f64 (fst infinite_tanks) = NInf
   \<and> fge (getBallastTankCapacity_f64 (submarineConstants_f64 (fst infinite_tanks))) (lit 0)
   \<and> currentWaterMassFrontTank_f64
       (fst (setCurrentTotalWaterMass_f64 (fst infinite_tanks) (snd infinite_tanks) (Fin 0))) = NaN
   \<and> currentWaterMassBackTank_f64
       (fst (setCurrentTotalWaterMass_f64 (fst infinite_tanks) (snd infinite_tanks) (Fin 0))) = NaN
   \<and> \<not> tank_bounds_f64
       (fst (setCurrentTotalWaterMass_f64 (fst infinite_tanks) (snd infinite_tanks) (Fin 0)))"
proof -
  have 1: "redistribute_f64 m f b NaN = (NaN, NaN)" for m f b
    by (rule redistribute_f64_NaN) (simp add: fsub_NaN_iff)
  have 2: "redistribute_f64 m PInf NInf (Fin 0) = (NaN, NaN)" for m
    by (rule redistribute_f64_NaN) (simp add: fsub_NaN_iff fadd_NaN_iff)
  show ?thesis
    unfolding setCurrentTotalWaterMass_f64_fields infinite_tanks_state tank_bounds_f64_def Let_def
      1 2 fst_conv snd_conv clamp_NaN
    by (simp add: initOhio_f64_state fge_def fle_def)
qed

text \<open>
  Claim C10, amended. On a capacity that is not negative (an infinite one included), and
  from finite tank masses, within their bounds or not, both tank masses lie in
  \<open>[0, ballastTankCapacity/2]\<close> after \<open>setCurrentTotalWaterMass(newTotal)\<close> exactly when
  the requested change \<open>newTotal - (front + back)\<close> is not NaN; that is so for every finite
  \<open>newTotal\<close>.
\<close>

theorem C10_final_clamp_f64:
  assumes "fge (getBallastTankCapacity_f64 (submarineConstants_f64 this)) (lit 0)"
    and "is_finite (currentWaterMassFrontTank_f64 this)"
    and "is_f64 (currentWaterMassFrontTank_f64 this)"
    and "is_finite (currentWaterMassBackTank_f64 this)"
    and "is_f64 (currentWaterMassBackTank_f64 this)"
  shows "(tank_bounds_f64 (fst (setCurrentTotalWaterMass_f64 this h newTotal))
           \<longleftrightarrow> fsub newTotal (fadd (currentWaterMassFrontTank_f64 this)
                   (currentWaterMassBackTank_f64 this)) \<noteq> NaN)
         \<and> (is_finite newTotal
              \<longrightarrow> tank_bounds_f64 (fst (setCurrentTotalWaterMass_f64 this h newTotal)))"
proof -
  note m = half_nonneg [OF assms(1)]
  note b = is_f64_bounded [OF assms(3)] is_f64_bounded [OF assms(5)]
  note k = setCurrentTotalWaterMass_f64_bounds [OF assms(2,4) b m, of h newTotal]
  have "fadd (currentWaterMassFrontTank_f64 this) (currentWaterMassBackTank_f64 this) \<noteq> NaN"
    using assms(2,4) by (auto simp: fadd_NaN_iff is_finite_def)
  then have "fsub newTotal (fadd (currentWaterMassFrontTank_f64 this)
      (currentWaterMassBackTank_f64 this)) \<noteq> NaN" if "is_finite newTotal"
    using that by (intro fsub_from_finite_not_NaN)
  with k show ?thesis by simp
qed

text \<open>
  Witness for the amended C10: the Ohio submarine with 50,000,000 in the front tank and
  -5 in the back tank, asked for a total of 10,000,000.
\<close>

theorem C10_final_clamp_f64_witness:
  "fge (getBallastTankCapacity_f64 (submarineConstants_f64 (fst overfull))) (lit 0)
   \<and> currentWaterMassFrontTank_f64 (fst overfull) = Fin 50000000
   \<and> currentWaterMassBackTank_f64 (fst overfull) = Fin (- 5)
   \<and> is_finite (Fin 50000000) \<and> is_f64 (Fin 50000000)
   \<and> is_finite (Fin (- 5)) \<and> is_f64 (Fin (- 5))
   \<and> \<not> tank_bounds_f64 (fst overfull)
   \<and> is_finite (Fin 10000000)
   \<and> tank_bounds_f64 (fst (setCurrentTotalWaterMass_f64 (fst overfull) (snd overfull) (Fin 10000000)))"
proof -
  have d: "is_f64 (Fin 50000000)" "is_f64 (Fin (- 5))"
    using is_double_int [of 50000000] is_double_int [of "- 5"] by simp_all
  have f: "is_finite (Fin 50000000)" "is_finite (Fin (- 5))" "is_finite (Fin 10000000)"
    by (simp_all add: is_finite_def)
  have c: "fge (getBallastTankCapacity_f64 (submarineConstants_f64 (fst overfull))) (lit 0)"
    by (simp add: overfull_state fge_def fle_def)
  have n: "\<not> tank_bounds_f64 (fst overfull)"
    by (simp add: tank_bounds_f64_def overfull_state half_ohio)
  have h: "is_finite (currentWaterMassFrontTank_f64 (fst overfull))"
    "is_f64 (currentWaterMassFrontTank_f64 (fst overfull))"
    "is_finite (currentWaterMassBackTank_f64 (fst overfull))"
    "is_f64 (currentWaterMassBackTank_f64 (fst overfull))"
    using d f by (simp_all add: overfull_state)
  from C10_final_clamp_f64 [OF c h, of "snd overfull" "Fin 10000000"] f(3)
  have t: "tank_bounds_f64
      (fst (setCurrentTotalWaterMass_f64 (fst overfull) (snd overfull) (Fin 10000000)))"
    by blast
  show ?thesis
    using c n t d f by (simp add: overfull_state)
qed

end
